theory Spec2Isabelle
  imports Complex_Main
begin

section \<open>Numbers and helpers\<close>

text \<open>
  The programs \<^verbatim>\<open>src/nov.py\<close> and \<^verbatim>\<open>src/nova.py\<close> compute with Python
  floats and ints. A Python \<^verbatim>\<open>float\<close> is modelled as a \<^typ>\<open>real\<close>, a Python
  \<^verbatim>\<open>int\<close> as an \<^typ>\<open>int\<close>. Where the program accumulates a float over the ticks (the
  animation phase) or cuts a float to the integer angle it hands to Qt (the arcs), every
  double operation is modelled with its rounding, the function \<open>fl\<close> below; elsewhere
  (geometry, gauge values, the orbit dots) arithmetic is exact. The two files share every
  function modelled here except where a definition takes a \<open>source\<close> argument.
\<close>

datatype source = Nov_py | Nova_py

datatype error = ZeroDivisionError

text \<open>\<^verbatim>\<open>def clamp(v, lo, hi): return max(lo, min(hi, v))\<close>\<close>

definition clamp :: "real \<Rightarrow> real \<Rightarrow> real \<Rightarrow> real" where
  "clamp v lo hi = max lo (min hi v)"

text \<open>
  \<^verbatim>\<open>def smoothstep(edge0, edge1, x):
      t = clamp((x - edge0) / (edge1 - edge0), 0.0, 1.0)
      return t * t * (3 - 2 * t)\<close>
  The float division raises when the two edges are equal.
\<close>

definition smoothstep :: "real \<Rightarrow> real \<Rightarrow> real \<Rightarrow> error + real" where
  "smoothstep edge0 edge1 x =
     (if edge1 - edge0 = 0 then Inl ZeroDivisionError
      else let t = clamp ((x - edge0) / (edge1 - edge0)) 0 1
           in Inr (t * t * (3 - 2 * t)))"

text \<open>Python's \<^verbatim>\<open>int(x)\<close> on a float truncates towards zero.\<close>

definition py_int :: "real \<Rightarrow> int" where
  "py_int x = (if 0 \<le> x then \<lfloor>x\<rfloor> else \<lceil>x\<rceil>)"

text \<open>
  Python's \<^verbatim>\<open>x % y\<close> on floats takes the sign of the divisor; every use in the
  program has the literal divisor \<^verbatim>\<open>1.0\<close>.
\<close>

definition py_fmod :: "real \<Rightarrow> real \<Rightarrow> real" where
  "py_fmod x y = x - y * of_int \<lfloor>x / y\<rfloor>"

text \<open>\<^verbatim>\<open>str.upper\<close>, on the ASCII titles of the program.\<close>

definition char_upper :: "char \<Rightarrow> char" where
  "char_upper c =
     (let n = (of_char c :: nat) in if 97 \<le> n \<and> n \<le> 122 then char_of (n - 32) else c)"

definition upper :: "string \<Rightarrow> string" where
  "upper s = map char_upper s"

text \<open>\<^verbatim>\<open>str(n)\<close> for an int, as an f-string prints it.\<close>

definition digit_char :: "nat \<Rightarrow> char" where
  "digit_char d = char_of (48 + d)"

function str_nat :: "nat \<Rightarrow> string" where
  "str_nat n = (if n < 10 then [digit_char n] else str_nat (n div 10) @ [digit_char (n mod 10)])"
  by pat_completeness auto
termination
  by (relation "measure id") auto

declare str_nat.simps [simp del]

definition str_int :: "int \<Rightarrow> string" where
  "str_int i = (if i < 0 then CHR ''-'' # str_nat (nat (- i)) else str_nat (nat i))"

text \<open>Rounding to the nearest integer, ties to even.\<close>

definition round_half_even :: "real \<Rightarrow> int" where
  "round_half_even m =
     (let f = \<lfloor>m\<rfloor>; d = m - of_int f
      in if d < 1 / 2 then f else if 1 / 2 < d then f + 1 else if even f then f else f + 1)"

text \<open>
  IEEE 754 binary64, round to nearest, ties to even, for values in the normal range (every
  value rounded in this file is zero or in it): \<open>fl x\<close> is the double nearest to \<open>x\<close>.
  \<open>bitlen n\<close> is the number of binary digits of \<open>n\<close>, \<open>expo x\<close> is the exponent
  \<open>floor(log2 |x|)\<close>, and the significand has 53 bits. A float literal denotes \<open>fl\<close> of
  its decimal value.
\<close>

function bitlen :: "nat \<Rightarrow> nat" where
  "bitlen n = (if n = 0 then 0 else Suc (bitlen (n div 2)))"
  by pat_completeness auto
termination
  by (relation "measure id") auto

declare bitlen.simps [simp del]

definition pow2 :: "int \<Rightarrow> real" where
  "pow2 k = (if 0 \<le> k then 2 ^ nat k else 1 / 2 ^ nat (- k))"

definition expo :: "real \<Rightarrow> int" where
  "expo x =
     (let a = \<bar>x\<bar>
      in if 1 \<le> a then int (bitlen (nat \<lfloor>a\<rfloor>)) - 1 else - int (bitlen (nat (\<lceil>1 / a\<rceil> - 1))))"

definition fl :: "real \<Rightarrow> real" where
  "fl x = (if x = 0 then 0 else let q = pow2 (expo x - 52) in of_int (round_half_even (x / q)) * q)"

text \<open>
  \<^verbatim>\<open>f"{x:.1f}"\<close>: the value rounded to one decimal, ties to even, with the sign of
  \<open>x\<close> kept even when the digits are all zero.
\<close>

definition format_1f :: "real \<Rightarrow> string" where
  "format_1f x =
     (let n = nat (round_half_even (\<bar>x\<bar> * 10))
      in (if x < 0 then ''-'' else '''') @ str_nat (n div 10) @ ''.'' @ [digit_char (n mod 10)])"

section \<open>The painter\<close>

text \<open>
  A \<^verbatim>\<open>QPainter\<close> is stateful: \<^verbatim>\<open>setPen\<close>, \<^verbatim>\<open>setBrush\<close> and \<^verbatim>\<open>setFont\<close> change
  the state that the next drawing call uses. The model keeps that state and the list of
  primitives drawn so far; each primitive records the pen, brush or font it was drawn with.
  Geometry follows Qt: a \<^verbatim>\<open>QRect\<close> has integer \<open>x, y, width, height\<close>, a \<^verbatim>\<open>QRectF\<close> real
  ones.
\<close>

datatype QColor = QColor int int int int

definition rgb :: "int \<Rightarrow> int \<Rightarrow> int \<Rightarrow> QColor" where
  "rgb r g b = QColor r g b 255"

datatype QPointF = QPointF real real

datatype QRect = QRect int int int int

datatype QRectF = QRectF real real real real

datatype CapStyle = SquareCap | RoundCap

datatype QPen = NoPen | QPen QColor real CapStyle

type_synonym stops = "(real \<times> QColor) list"

datatype QBrush =
    NoBrush
  | SolidBrush QColor
  | QLinearGradient QPointF QPointF stops
  | QRadialGradient QPointF real stops

datatype Weight = Bold | DemiBold | Black

datatype QFont = QFont string int Weight

datatype AlignFlag = AlignLeft | AlignRight | AlignTop | AlignHCenter | AlignVCenter | AlignCenter

datatype prim =
    DrawRoundedRect QRectF real real QPen QBrush
  | DrawText QRect "AlignFlag set" string QPen "QFont option"
  | DrawLine QPointF QPointF QPen
  | DrawArc QRectF int int QPen
  | DrawEllipse QPointF real real QPen QBrush
  | FillRect QRect QBrush

record QPainter =
  antialiasing :: bool
  pen :: QPen
  brush :: QBrush
  font :: "QFont option"
  prims :: "prim list"

definition QPainter_new :: QPainter where
  "QPainter_new =
     \<lparr>antialiasing = False, pen = QPen (rgb 0 0 0) 1 SquareCap, brush = NoBrush,
      font = None, prims = []\<rparr>"

definition setRenderHint :: "QPainter \<Rightarrow> QPainter" where
  "setRenderHint p = p\<lparr>antialiasing := True\<rparr>"

definition setPen :: "QPen \<Rightarrow> QPainter \<Rightarrow> QPainter" where
  "setPen x p = p\<lparr>pen := x\<rparr>"

definition setPenColor :: "QColor \<Rightarrow> QPainter \<Rightarrow> QPainter" where
  "setPenColor c p = p\<lparr>pen := QPen c 1 SquareCap\<rparr>"

definition setBrush :: "QBrush \<Rightarrow> QPainter \<Rightarrow> QPainter" where
  "setBrush x p = p\<lparr>brush := x\<rparr>"

definition setFont :: "QFont \<Rightarrow> QPainter \<Rightarrow> QPainter" where
  "setFont f p = p\<lparr>font := Some f\<rparr>"

definition emit :: "prim \<Rightarrow> QPainter \<Rightarrow> QPainter" where
  "emit d p = p\<lparr>prims := prims p @ [d]\<rparr>"

definition drawRoundedRect :: "QRectF \<Rightarrow> real \<Rightarrow> real \<Rightarrow> QPainter \<Rightarrow> QPainter" where
  "drawRoundedRect r rx ry p = emit (DrawRoundedRect r rx ry (pen p) (brush p)) p"

definition drawText :: "QRect \<Rightarrow> AlignFlag set \<Rightarrow> string \<Rightarrow> QPainter \<Rightarrow> QPainter" where
  "drawText r flags s p = emit (DrawText r flags s (pen p) (font p)) p"

definition drawLine :: "QPointF \<Rightarrow> QPointF \<Rightarrow> QPainter \<Rightarrow> QPainter" where
  "drawLine a b p = emit (DrawLine a b (pen p)) p"

definition drawArc :: "QRectF \<Rightarrow> int \<Rightarrow> int \<Rightarrow> QPainter \<Rightarrow> QPainter" where
  "drawArc r start16 span16 p = emit (DrawArc r start16 span16 (pen p)) p"

definition drawEllipse :: "QPointF \<Rightarrow> real \<Rightarrow> real \<Rightarrow> QPainter \<Rightarrow> QPainter" where
  "drawEllipse c rx ry p = emit (DrawEllipse c rx ry (pen p) (brush p)) p"

definition fillRect :: "QRect \<Rightarrow> QBrush \<Rightarrow> QPainter \<Rightarrow> QPainter" where
  "fillRect r b p = emit (FillRect r b) p"

text \<open>Qt geometry used by the paint routines.\<close>

fun rect_x :: "QRect \<Rightarrow> int" where "rect_x (QRect x y w h) = x"
fun rect_y :: "QRect \<Rightarrow> int" where "rect_y (QRect x y w h) = y"
fun rect_width :: "QRect \<Rightarrow> int" where "rect_width (QRect x y w h) = w"
fun rect_height :: "QRect \<Rightarrow> int" where "rect_height (QRect x y w h) = h"

fun adjusted :: "QRect \<Rightarrow> int \<Rightarrow> int \<Rightarrow> int \<Rightarrow> int \<Rightarrow> QRect" where
  "adjusted (QRect x y w h) dx1 dy1 dx2 dy2 = QRect (x + dx1) (y + dy1) (w - dx1 + dx2) (h - dy1 + dy2)"

text \<open>C++ integer division truncates; \<^verbatim>\<open>QRect::center\<close> is \<open>((x1 + x2) / 2, (y1 + y2) / 2)\<close>
  with \<open>x2 = x1 + width - 1\<close>.\<close>

definition c_div :: "int \<Rightarrow> int \<Rightarrow> int" where
  "c_div a b = sgn a * sgn b * (\<bar>a\<bar> div \<bar>b\<bar>)"

fun rect_center :: "QRect \<Rightarrow> int \<times> int" where
  "rect_center (QRect x y w h) = (c_div (x + (x + w - 1)) 2, c_div (y + (y + h - 1)) 2)"

fun toRectF :: "QRect \<Rightarrow> QRectF" where
  "toRectF (QRect x y w h) = QRectF (of_int x) (of_int y) (of_int w) (of_int h)"

fun rectf_x :: "QRectF \<Rightarrow> real" where "rectf_x (QRectF x y w h) = x"
fun rectf_y :: "QRectF \<Rightarrow> real" where "rectf_y (QRectF x y w h) = y"
fun rectf_width :: "QRectF \<Rightarrow> real" where "rectf_width (QRectF x y w h) = w"
fun rectf_height :: "QRectF \<Rightarrow> real" where "rectf_height (QRectF x y w h) = h"

fun topLeft :: "QRectF \<Rightarrow> QPointF" where
  "topLeft (QRectF x y w h) = QPointF x y"

fun topRight :: "QRectF \<Rightarrow> QPointF" where
  "topRight (QRectF x y w h) = QPointF (x + w) y"

fun point_add :: "QPointF \<Rightarrow> QPointF \<Rightarrow> QPointF" where
  "point_add (QPointF a b) (QPointF c d) = QPointF (a + c) (b + d)"

fun point_x :: "QPointF \<Rightarrow> real" where "point_x (QPointF a b) = a"
fun point_y :: "QPointF \<Rightarrow> real" where "point_y (QPointF a b) = b"

section \<open>NeonBar: the gauge\<close>

record NeonBar =
  bar_title :: string
  bar_value :: real
  bar_unit :: string
  bar_style :: string

text \<open>\<^verbatim>\<open>NeonBar.__init__(self, title, init=0.0, style='rainbow')\<close>\<close>

definition NeonBar_init :: "string \<Rightarrow> real \<Rightarrow> string \<Rightarrow> NeonBar" where
  "NeonBar_init title init style =
     \<lparr>bar_title = title, bar_value = init, bar_unit = '''', bar_style = style\<rparr>"

text \<open>\<^verbatim>\<open>def setValue(self, v): self.value = clamp(float(v), 0.0, 100.0)\<close>\<close>

definition setValue :: "real \<Rightarrow> NeonBar \<Rightarrow> NeonBar" where
  "setValue v b = b\<lparr>bar_value := clamp v 0 100\<rparr>"

text \<open>The branch on \<^verbatim>\<open>self.style\<close> that fills the gradient's colour stops.\<close>

definition gradient_stops :: "string \<Rightarrow> stops" where
  "gradient_stops style =
     (if style = ''rainbow'' then [(0, rgb 30 220 140), (1 / 2, rgb 255 200 60), (1, rgb 255 90 80)]
      else if style = ''pink'' then [(0, rgb 255 100 220), (1, rgb 200 50 255)]
      else if style = ''green'' then [(0, rgb 40 220 120), (1, rgb 20 160 100)]
      else [(0, rgb 80 200 255), (1, rgb 150 120 255)])"

text \<open>
  \<^verbatim>\<open>NeonBar.paintEvent\<close>; the first argument is \<^verbatim>\<open>self.rect()\<close>, the geometry Qt's
  layout gave the widget.
\<close>

definition NeonBar_paintEvent :: "QRect \<Rightarrow> NeonBar \<Rightarrow> prim list" where
  "NeonBar_paintEvent self_rect b =
     (let p = setRenderHint QPainter_new;
          r = adjusted self_rect 8 8 (- 8) (- 8);
          p = setPen NoPen p;
          p = setBrush (SolidBrush (QColor 14 18 24 220)) p;
          p = drawRoundedRect (toRectF self_rect) 10 10 p;
          p = setPenColor (rgb 170 190 210) p;
          p = setFont (QFont ''Segoe UI'' 10 Bold) p;
          p = drawText (QRect (rect_x r) (rect_y r - 2) (rect_width r) 16) {AlignLeft, AlignTop}
                (upper (bar_title b)) p;
          bar = QRectF (of_int (rect_x r)) (of_int (rect_y r + 20)) (of_int (rect_width r)) 14;
          p = setBrush (SolidBrush (QColor 28 36 48 220)) p;
          p = setPen NoPen p;
          p = drawRoundedRect bar 8 8 p;
          w = rectf_width bar * (bar_value b / 100);
          fill = QRectF (rectf_x bar) (rectf_y bar) w (rectf_height bar);
          grad = QLinearGradient (topLeft fill) (topRight fill) (gradient_stops (bar_style b));
          p = setBrush grad p;
          p = drawRoundedRect fill 8 8 p;
          p = setPen (QPen (QColor 255 255 255 70) 1 SquareCap) p;
          p = drawLine (point_add (topLeft bar) (QPointF 0 1)) (point_add (topRight bar) (QPointF 0 1)) p;
          p = setPenColor (rgb 230 240 255) p;
          p = setFont (QFont ''Consolas'' 11 DemiBold) p;
          txt = str_int (py_int (bar_value b)) @ (if bar_unit b \<noteq> [] then bar_unit b else ''%'');
          p = drawText r {AlignRight, AlignVCenter} txt p
      in prims p)"

section \<open>AnimatedRings: the ring field\<close>

record AnimatedRings =
  phase :: real

text \<open>\<^verbatim>\<open>AnimatedRings.__init__\<close> sets \<^verbatim>\<open>self.phase = 0.0\<close>.\<close>

definition AnimatedRings_init :: AnimatedRings where
  "AnimatedRings_init = \<lparr>phase = 0\<rparr>"

text \<open>A ring is the tuple \<open>(radius, width, offset, colour)\<close> of the list in \<^verbatim>\<open>paintEvent\<close>.\<close>

type_synonym ring = "real \<times> real \<times> real \<times> QColor"

definition rings_list :: "real \<Rightarrow> ring list" where
  "rings_list radius =
     [(radius * 1.02, 9.0, 0.00, QColor 80 220 255 220),
      (radius * 0.86, 6.0, 0.19, QColor 255 160 90 210),
      (radius * 0.72, 4.0, 0.36, QColor 180 120 255 200),
      (radius * 0.59, 3.0, 0.54, QColor 100 220 200 200),
      (radius * 0.46, 2.2, 0.72, QColor 255 110 200 180)]"

text \<open>
  The body of \<^verbatim>\<open>for i in range(2)\<close> in \<^verbatim>\<open>_draw_ring\<close>:
  \<^verbatim>\<open>start = (base + i*0.48) * 360.0; span = 200.0 if i == 0 else 120.0
  pen = QPen(color, width); pen.setCapStyle(Qt.RoundCap); p.setPen(pen)
  rect = QRectF(center.x()-radius, center.y()-radius, radius*2, radius*2)
  p.drawArc(rect, int(-start*16), int(-span*16))\<close>
  The angles are cut to integers, so each double operation that leads to them is rounded:
  the product \<^verbatim>\<open>i*0.48\<close>, the sum with \<^verbatim>\<open>base\<close>, the product with \<^verbatim>\<open>360.0\<close> and the
  product with 16. The argument \<open>base\<close> is the double that \<^verbatim>\<open>base\<close> holds.
\<close>

definition draw_arc :: "QPointF \<Rightarrow> real \<Rightarrow> real \<Rightarrow> QColor \<Rightarrow> real \<Rightarrow> nat \<Rightarrow> QPainter \<Rightarrow> QPainter" where
  "draw_arc center radius width color base i p =
     (let start = fl (fl (base + fl (real i * fl 0.48)) * 360.0);
          span = (if i = 0 then 200.0 else 120.0);
          p = setPen (QPen color width RoundCap) p;
          rect = QRectF (point_x center - radius) (point_y center - radius) (radius * 2) (radius * 2)
      in drawArc rect (py_int (fl (- start * 16))) (py_int (fl (- span * 16))) p)"

text \<open>
  The body of \<^verbatim>\<open>for k in range(dots)\<close>, with \<^verbatim>\<open>dots = 36\<close>:
  \<^verbatim>\<open>t = (k/dots + base*0.08) % 1.0; ang = t * 2*math.pi; d = radius - width*1.6
  x = center.x() + math.cos(ang)*d; y = center.y() + math.sin(ang)*d
  a = int(80 * smoothstep(0.0, 1.0, 1.0-abs(0.5-t)*2)) + 40
  p.setBrush(QColor(80,220,255,a)); p.drawEllipse(QPointF(x,y), 2.2, 2.2)\<close>
\<close>

definition dots :: nat where
  "dots = 36"

definition dot_t :: "real \<Rightarrow> nat \<Rightarrow> real" where
  "dot_t base k = py_fmod (real k / real dots + base * 0.08) 1.0"

definition dot_alpha :: "real \<Rightarrow> error + int" where
  "dot_alpha t =
     (case smoothstep 0.0 1.0 (1.0 - \<bar>0.5 - t\<bar> * 2) of
        Inl err \<Rightarrow> Inl err
      | Inr s \<Rightarrow> Inr (py_int (80 * s) + 40))"

definition draw_dot :: "QPointF \<Rightarrow> real \<Rightarrow> real \<Rightarrow> real \<Rightarrow> nat \<Rightarrow> QPainter \<Rightarrow> error + QPainter" where
  "draw_dot center radius width base k p =
     (let t = dot_t base k;
          ang = t * 2 * pi;
          d = radius - width * 1.6;
          x = point_x center + cos ang * d;
          y = point_y center + sin ang * d
      in case dot_alpha t of
           Inl err \<Rightarrow> Inl err
         | Inr a \<Rightarrow>
             (let p = setBrush (SolidBrush (QColor 80 220 255 a)) p
              in Inr (drawEllipse (QPointF x y) 2.2 2.2 p)))"

fun draw_dots :: "QPointF \<Rightarrow> real \<Rightarrow> real \<Rightarrow> real \<Rightarrow> nat list \<Rightarrow> QPainter \<Rightarrow> error + QPainter" where
  "draw_dots center radius width base [] p = Inr p"
| "draw_dots center radius width base (k # ks) p =
     (case draw_dot center radius width base k p of
        Inl err \<Rightarrow> Inl err
      | Inr p' \<Rightarrow> draw_dots center radius width base ks p')"

text \<open>
  \<^verbatim>\<open>_draw_ring(self, p, center, radius, width, offset, color)\<close>; the first argument
  is \<^verbatim>\<open>self.phase\<close>. The line \<^verbatim>\<open>base = (self.phase + offset) % 1.0\<close> appears twice:
  \<open>base_d\<close> is the double the code holds (the offset literal and the sum rounded; \<^verbatim>\<open>%\<close>
  is exact on a non-negative double), used for the integer angles of the arcs; \<open>base\<close>
  is the same expression in exact arithmetic, used for the orbit dots.
\<close>

definition draw_ring :: "real \<Rightarrow> QPainter \<Rightarrow> QPointF \<Rightarrow> real \<Rightarrow> real \<Rightarrow> real \<Rightarrow> QColor \<Rightarrow> error + QPainter" where
  "draw_ring self_phase p center radius width offset color =
     (let base = py_fmod (self_phase + offset) 1.0;
          base_d = py_fmod (fl (self_phase + fl offset)) 1.0;
          p = fold (draw_arc center radius width color base_d) [0..<2] p;
          p = setPen NoPen p
      in draw_dots center radius width base [0..<dots] p)"

fun draw_rings :: "real \<Rightarrow> QPointF \<Rightarrow> ring list \<Rightarrow> QPainter \<Rightarrow> error + QPainter" where
  "draw_rings self_phase center [] p = Inr p"
| "draw_rings self_phase center ((r, w, off, col) # rest) p =
     (case draw_ring self_phase p center r w off col of
        Inl err \<Rightarrow> Inl err
      | Inr p' \<Rightarrow> draw_rings self_phase center rest p')"

text \<open>The centre text differs between the two files; the caption starts with U+2022.\<close>

definition center_title :: "source \<Rightarrow> string" where
  "center_title src = (case src of Nov_py \<Rightarrow> ''NOVA'' | Nova_py \<Rightarrow> ''J.A.R.V.I.S'')"

definition online_caption :: string where
  "online_caption = [CHR 0xE2, CHR 0x80, CHR 0xA2] @ ''  ONLINE''"

text \<open>
  \<^verbatim>\<open>AnimatedRings.paintEvent\<close>; \<open>self_rect\<close> is \<^verbatim>\<open>self.rect()\<close>, the viewport. The
  result is the list of primitives the painter received, or the exception raised.
\<close>

definition AnimatedRings_paintEvent :: "source \<Rightarrow> QRect \<Rightarrow> AnimatedRings \<Rightarrow> error + prim list" where
  "AnimatedRings_paintEvent src self_rect self =
     (let p = setRenderHint QPainter_new;
          rect = self_rect;
          (cx, cy) = rect_center rect;
          radius = real_of_int (min (rect_width rect) (rect_height rect)) * 0.42;
          bg = QRadialGradient (QPointF (of_int cx) (of_int cy)) (radius * 1.8)
                 [(0.0, rgb 10 12 16), (1.0, QColor 6 8 12 0)];
          p = fillRect rect bg p
      in case draw_rings (phase self) (QPointF (of_int cx) (of_int cy)) (rings_list radius) p of
           Inl err \<Rightarrow> Inl err
         | Inr p \<Rightarrow>
             (let p = setPenColor (rgb 200 240 255) p;
                  p = setFont (QFont ''Segoe UI'' 42 Black) p;
                  p = drawText rect {AlignCenter} (center_title src) p;
                  p = setFont (QFont ''Segoe UI'' 12 DemiBold) p;
                  p = setPenColor (rgb 160 200 255) p;
                  p = drawText (adjusted rect 0 40 0 0) {AlignHCenter, AlignTop} online_caption p
              in Inr (prims p)))"

section \<open>NovaHUD: the window and its timers\<close>

text \<open>
  What one call of \<^verbatim>\<open>sampleStats\<close> reads from outside the program: the \<^verbatim>\<open>psutil\<close>
  module (\<open>None\<close> when its import failed) with the outcome of each call the routine makes,
  the wall clock \<^verbatim>\<open>time.time()\<close>, and the successive results of \<^verbatim>\<open>random.random()\<close>.
\<close>

datatype 'a call = Raised | Returned 'a

record snicaddr =
  family :: int
  address :: string

record psutil_api =
  cpu_percent :: "real call"
  sensors_temperatures :: "(string \<times> real list) list call"
  has_sensors_battery :: bool
  sensors_battery :: "real option call"
  virtual_memory :: "real call"
  disk_usage :: "real call"
  net_if_addrs :: "(string \<times> snicaddr list) list call"
  net_io_counters :: "(int \<times> int) call"

record env =
  psutil :: "psutil_api option"
  time_now :: real
  rng :: "nat \<Rightarrow> real"

text \<open>\<^verbatim>\<open>random.uniform(a, b)\<close> is \<^verbatim>\<open>a + (b - a) * random()\<close>; it uses up one result.\<close>

definition uniform :: "real \<Rightarrow> real \<Rightarrow> (nat \<Rightarrow> real) \<Rightarrow> real \<times> (nat \<Rightarrow> real)" where
  "uniform a b g = (a + (b - a) * g 0, \<lambda>n. g (Suc n))"

record NetworkStats =
  ip_text :: string
  up_text :: string
  down_text :: string

definition NetworkStats_init :: NetworkStats where
  "NetworkStats_init =
     \<lparr>ip_text = ''IP Address: 0.0.0.0'', up_text = ''Upload: 0.0 MB/s'',
      down_text = ''Download: 0.0 MB/s''\<rparr>"

record NovaHUD =
  cpu_util :: NeonBar
  cpu_temp :: NeonBar
  battery :: NeonBar
  mem :: NeonBar
  disk :: NeonBar
  rings :: AnimatedRings
  net :: NetworkStats
  last_bytes :: "(int \<times> int) option"

text \<open>A provider call inside \<^verbatim>\<open>try: x = call() if psutil else random.uniform(a, b)
  except: x = random.uniform(a, b)\<close>.\<close>

definition read_or_uniform ::
  "env \<Rightarrow> (psutil_api \<Rightarrow> real call) \<Rightarrow> real \<Rightarrow> real \<Rightarrow> (nat \<Rightarrow> real) \<Rightarrow> real \<times> (nat \<Rightarrow> real)" where
  "read_or_uniform e f a b g =
     (case psutil e of
        None \<Rightarrow> uniform a b g
      | Some api \<Rightarrow> (case f api of Returned x \<Rightarrow> (x, g) | Raised \<Rightarrow> uniform a b g))"

text \<open>The loop \<^verbatim>\<open>for k,v in temps.items(): if v: temp_c = v[0].current; break\<close>.\<close>

fun first_temp :: "(string \<times> real list) list \<Rightarrow> real option" where
  "first_temp [] = None"
| "first_temp ((k, v) # rest) = (case v of [] \<Rightarrow> first_temp rest | c # cs \<Rightarrow> Some c)"

definition read_temp :: "env \<Rightarrow> (nat \<Rightarrow> real) \<Rightarrow> real \<times> (nat \<Rightarrow> real)" where
  "read_temp e g =
     (let temp_c =
            (case psutil e of
               None \<Rightarrow> None
             | Some api \<Rightarrow>
                 (case sensors_temperatures api of Raised \<Rightarrow> None | Returned temps \<Rightarrow> first_temp temps))
      in case temp_c of
           Some c \<Rightarrow> (c, g)
         | None \<Rightarrow> (let (u, g') = uniform (- 2) 2 g in (48 + 12 * sin (time_now e / 6.5) + u, g')))"

definition read_batt :: "env \<Rightarrow> (nat \<Rightarrow> real) \<Rightarrow> real \<times> (nat \<Rightarrow> real)" where
  "read_batt e g =
     (let batt_pct =
            (case psutil e of
               None \<Rightarrow> None
             | Some api \<Rightarrow>
                 (if has_sensors_battery api
                  then (case sensors_battery api of Raised \<Rightarrow> None | Returned b \<Rightarrow> b)
                  else None))
      in case batt_pct of
           Some c \<Rightarrow> (c, g)
         | None \<Rightarrow> (let (u, g') = uniform (- 4) 4 g in (70 + 8 * sin (time_now e / 10.0) + u, g')))"

text \<open>
  The value \<^verbatim>\<open>sampleStats\<close> passes to \<^verbatim>\<open>self.battery.setValue\<close>. In
  \<^verbatim>\<open>src/nov.py\<close>: \<^verbatim>\<open>pseudo_temp = 60 + (batt_pct/100.0)*20\<close>, then
  \<^verbatim>\<open>clamp(pseudo_temp, 0, 100)\<close>. In \<^verbatim>\<open>src/nova.py\<close>: \<^verbatim>\<open>clamp(batt_pct, 0, 100)\<close>.
\<close>

definition battery_arg :: "source \<Rightarrow> real \<Rightarrow> real" where
  "battery_arg src batt_pct =
     (case src of
        Nov_py \<Rightarrow> (let pseudo_temp = 60 + (batt_pct / 100.0) * 20 in clamp pseudo_temp 0 100)
      | Nova_py \<Rightarrow> clamp batt_pct 0 100)"

text \<open>The search for the address to show.\<close>

definition addr_ok :: "snicaddr \<Rightarrow> bool" where
  "addr_ok a \<longleftrightarrow>
     family a \<noteq> 0 \<and> count_list (address a) CHR ''.'' = 3 \<and> take 7 (address a) \<noteq> ''169.254''"

fun scan_arr :: "snicaddr list \<Rightarrow> string \<Rightarrow> string" where
  "scan_arr [] ip = ip"
| "scan_arr (a # rest) ip = (if addr_ok a then address a else scan_arr rest ip)"

fun scan_addrs :: "(string \<times> snicaddr list) list \<Rightarrow> string \<Rightarrow> string" where
  "scan_addrs [] ip = ip"
| "scan_addrs ((name, arr) # rest) ip =
     (let ip = scan_arr arr ip in if ip \<noteq> ''0.0.0.0'' then ip else scan_addrs rest ip)"

text \<open>The network part of \<^verbatim>\<open>sampleStats\<close>; it returns the labels and \<^verbatim>\<open>self.last_bytes\<close>.\<close>

definition sample_network ::
  "env \<Rightarrow> (nat \<Rightarrow> real) \<Rightarrow> NetworkStats \<Rightarrow> (int \<times> int) option \<Rightarrow> NetworkStats \<times> (int \<times> int) option" where
  "sample_network e g n lastb =
     (case psutil e of
        Some api \<Rightarrow>
          (let n = (case net_if_addrs api of
                      Returned addrs \<Rightarrow> n\<lparr>ip_text := ''IP Address: '' @ scan_addrs addrs ''0.0.0.0''\<rparr>
                    | Raised \<Rightarrow> n\<lparr>ip_text := ''IP Address: 0.0.0.0''\<rparr>)
           in case net_io_counters api of
                Raised \<Rightarrow> (n, lastb)
              | Returned nowb \<Rightarrow>
                  (case lastb of
                     Some prevb \<Rightarrow>
                       (let up = real_of_int (fst nowb - fst prevb) / 1024.0 / 1024.0;
                            down = real_of_int (snd nowb - snd prevb) / 1024.0 / 1024.0
                        in (n\<lparr>up_text := ''Upload: '' @ format_1f up @ '' MB/s'',
                              down_text := ''Download: '' @ format_1f down @ '' MB/s''\<rparr>,
                            Some nowb))
                   | None \<Rightarrow> (n, Some nowb)))
      | None \<Rightarrow>
          (let n = n\<lparr>ip_text := ''IP Address: 192.168.1.101''\<rparr>;
               (u, g) = uniform 0.4 3.2 g;
               n = n\<lparr>up_text := ''Upload: '' @ format_1f u @ '' MB/s''\<rparr>;
               (d, g) = uniform 3.3 18.3 g;
               n = n\<lparr>down_text := ''Download: '' @ format_1f d @ '' MB/s''\<rparr>
           in (n, lastb)))"

text \<open>\<^verbatim>\<open>NovaHUD.sampleStats\<close>, the slot of the 1000 ms timer.\<close>

definition sampleStats :: "source \<Rightarrow> env \<Rightarrow> NovaHUD \<Rightarrow> NovaHUD" where
  "sampleStats src e h =
     (let g = rng e;
          (cpu, g) = read_or_uniform e cpu_percent 8 88 g;
          h = h\<lparr>cpu_util := setValue cpu (cpu_util h)\<rparr>;
          (temp_c, g) = read_temp e g;
          h = h\<lparr>cpu_temp := setValue (clamp ((temp_c / 100.0) * 100) 0 100) (cpu_temp h)\<rparr>;
          (batt_pct, g) = read_batt e g;
          h = h\<lparr>battery := setValue (battery_arg src batt_pct) (battery h)\<rparr>;
          (mem_pct, g) = read_or_uniform e virtual_memory 22 86 g;
          h = h\<lparr>mem := setValue mem_pct (mem h)\<rparr>;
          (disk_pct, g) = read_or_uniform e disk_usage 12 88 g;
          h = h\<lparr>disk := setValue disk_pct (disk h)\<rparr>;
          (n, lastb) = sample_network e g (net h) (last_bytes h)
      in h\<lparr>net := n, last_bytes := lastb\<rparr>)"

text \<open>
  \<^verbatim>\<open>NovaHUD.__init__\<close>: the widgets with their initial values, then one call of
  \<^verbatim>\<open>sampleStats\<close>. The clock labels, the camera panel and the layout are not part of
  the model.
\<close>

definition NovaHUD_widgets :: NovaHUD where
  "NovaHUD_widgets =
     \<lparr>cpu_util = NeonBar_init ''CPU UTILIZATION'' 65 ''rainbow'',
      cpu_temp = NeonBar_init ''CPU TEMPERATURE'' 62 ''rainbow'',
      battery = NeonBar_init ''BATTERY'' 72 ''rainbow'',
      mem = NeonBar_init ''MEMORY USAGE'' 50 ''pink'',
      disk = NeonBar_init ''DISK USAGE'' 75 ''green'',
      rings = AnimatedRings_init,
      net = NetworkStats_init,
      last_bytes = None\<rparr>"

definition NovaHUD_init :: "source \<Rightarrow> env \<Rightarrow> NovaHUD" where
  "NovaHUD_init src e = sampleStats src e NovaHUD_widgets"

text \<open>
  \<^verbatim>\<open>def animate(self): self.rings.phase = (self.rings.phase + 0.0075) % 1.0\<close>,
  the slot of the 16 ms timer. The phase is a double that is carried from tick to tick:
  the literal and the sum are rounded; \<^verbatim>\<open>% 1.0\<close> is exact on a non-negative double.
\<close>

definition animate :: "NovaHUD \<Rightarrow> NovaHUD" where
  "animate h = h\<lparr>rings := (rings h)\<lparr>phase := py_fmod (fl (phase (rings h) + fl 0.0075)) 1.0\<rparr>\<rparr>"

text \<open>The timers fire in some order; a run of the window is the list of the slots called.\<close>

datatype event = AnimTimer | StatTimer env

fun step :: "source \<Rightarrow> event \<Rightarrow> NovaHUD \<Rightarrow> NovaHUD" where
  "step src AnimTimer h = animate h"
| "step src (StatTimer e) h = sampleStats src e h"

definition run :: "source \<Rightarrow> event list \<Rightarrow> NovaHUD \<Rightarrow> NovaHUD" where
  "run src evs h = fold (step src) evs h"

text \<open>The number of render ticks (calls of \<^verbatim>\<open>animate\<close>) in a run.\<close>

fun is_anim :: "event \<Rightarrow> bool" where
  "is_anim AnimTimer = True"
| "is_anim (StatTimer e) = False"

definition render_ticks :: "event list \<Rightarrow> nat" where
  "render_ticks evs = length (filter is_anim evs)"

text \<open>Two environments for concrete runs: one without \<^verbatim>\<open>psutil\<close>, one where every
  provider call raises.\<close>

definition env_no_psutil :: env where
  "env_no_psutil = \<lparr>psutil = None, time_now = 0, rng = (\<lambda>n. 0)\<rparr>"

definition api_all_raise :: psutil_api where
  "api_all_raise =
     \<lparr>cpu_percent = Raised, sensors_temperatures = Raised, has_sensors_battery = True,
      sensors_battery = Raised, virtual_memory = Raised, disk_usage = Raised,
      net_if_addrs = Raised, net_io_counters = Raised\<rparr>"

definition env_all_raise :: env where
  "env_all_raise = \<lparr>psutil = Some api_all_raise, time_now = 0, rng = (\<lambda>n. 0)\<rparr>"

section \<open>Observations used in the statements\<close>

text \<open>
  The primitives \<^verbatim>\<open>_draw_ring\<close> emits, written out: the arc of index \<open>i\<close>, the orbit
  dot of index \<open>k\<close> (with the cubic of \<^verbatim>\<open>smoothstep\<close> on the unit interval), and the
  whole ring. The lemmas below prove that the paint routines emit exactly these.
\<close>

definition pulse :: "real \<Rightarrow> real" where
  "pulse t = (let u = clamp (1 - \<bar>0.5 - t\<bar> * 2) 0 1 in u * u * (3 - 2 * u))"

definition arc_prim :: "QPointF \<Rightarrow> real \<Rightarrow> real \<Rightarrow> QColor \<Rightarrow> real \<Rightarrow> nat \<Rightarrow> prim" where
  "arc_prim c r w col base i =
     DrawArc (QRectF (point_x c - r) (point_y c - r) (r * 2) (r * 2))
       (py_int (fl (- fl (fl (base + fl (real i * fl 0.48)) * 360) * 16)))
       (py_int (fl (- (if i = 0 then 200 else 120) * 16)))
       (QPen col w RoundCap)"

definition dot_prim :: "QPointF \<Rightarrow> real \<Rightarrow> real \<Rightarrow> real \<Rightarrow> QPen \<Rightarrow> nat \<Rightarrow> prim" where
  "dot_prim c r w base pn k =
     DrawEllipse
       (QPointF (point_x c + cos (dot_t base k * 2 * pi) * (r - w * 1.6))
                (point_y c + sin (dot_t base k * 2 * pi) * (r - w * 1.6)))
       2.2 2.2 pn (SolidBrush (QColor 80 220 255 (py_int (80 * pulse (dot_t base k)) + 40)))"

definition ring_prims :: "real \<Rightarrow> QPointF \<Rightarrow> ring \<Rightarrow> prim list" where
  "ring_prims ph c rg =
     (case rg of (r, w, off, col) \<Rightarrow>
        [arc_prim c r w col (py_fmod (fl (ph + fl off)) 1) 0,
         arc_prim c r w col (py_fmod (fl (ph + fl off)) 1) 1]
        @ map (dot_prim c r w (py_fmod (ph + off) 1) NoPen) [0..<dots])"

text \<open>The centre and the base radius \<^verbatim>\<open>AnimatedRings.paintEvent\<close> computes from the
  viewport.\<close>

definition rings_center :: "QRect \<Rightarrow> QPointF" where
  "rings_center rect = QPointF (of_int (fst (rect_center rect))) (of_int (snd (rect_center rect)))"

definition rings_radius :: "QRect \<Rightarrow> real" where
  "rings_radius rect = real_of_int (min (rect_width rect) (rect_height rect)) * 0.42"

text \<open>Reading a primitive back: what kind it is, the angles of an arc, the colour of a
  solid brush.\<close>

fun is_arc :: "prim \<Rightarrow> bool" where
  "is_arc (DrawArc r a b pn) = True"
| "is_arc d = False"

fun arc_start16 :: "prim \<Rightarrow> int option" where
  "arc_start16 (DrawArc r a b pn) = Some a"
| "arc_start16 d = None"


definition prims_of :: "error + QPainter \<Rightarrow> prim list" where
  "prims_of res = (case res of Inl err \<Rightarrow> [] | Inr p \<Rightarrow> prims p)"

fun prim_rgb :: "prim \<Rightarrow> (int \<times> int \<times> int) option" where
  "prim_rgb (DrawEllipse c rx ry pn (SolidBrush (QColor r g b a))) = Some (r, g, b)"
| "prim_rgb d = None"

text \<open>
  The battery percentage a call of \<^verbatim>\<open>sampleStats\<close> obtains (\<^verbatim>\<open>batt_pct\<close> after the
  fallback), and the random source as it stands when the network part starts.
\<close>

definition sampled_batt :: "env \<Rightarrow> real" where
  "sampled_batt e =
     (let g = rng e;
          (cpu, g) = read_or_uniform e cpu_percent 8 88 g;
          (temp_c, g) = read_temp e g;
          (batt_pct, g) = read_batt e g
      in batt_pct)"

definition net_rng :: "env \<Rightarrow> nat \<Rightarrow> real" where
  "net_rng e =
     (let g = rng e;
          (cpu, g) = read_or_uniform e cpu_percent 8 88 g;
          (temp_c, g) = read_temp e g;
          (batt_pct, g) = read_batt e g;
          (mem_pct, g) = read_or_uniform e virtual_memory 22 86 g;
          (disk_pct, g) = read_or_uniform e disk_usage 12 88 g
      in g)"

text \<open>Environments for concrete cycles: a battery at 50 percent, and byte counters read
  at the clock times 0, 1 and 2.\<close>

definition env_batt50 :: env where
  "env_batt50 =
     \<lparr>psutil = Some (api_all_raise\<lparr>sensors_battery := Returned (Some 50)\<rparr>),
      time_now = 0, rng = (\<lambda>n. 0)\<rparr>"

definition env_tick0 :: env where
  "env_tick0 =
     \<lparr>psutil = Some (api_all_raise\<lparr>net_io_counters := Returned (0, 0)\<rparr>),
      time_now = 0, rng = (\<lambda>n. 0)\<rparr>"

definition env_tick1 :: env where
  "env_tick1 =
     \<lparr>psutil = Some (api_all_raise\<lparr>net_io_counters := Returned (1048576, 10485760)\<rparr>),
      time_now = 1, rng = (\<lambda>n. 0)\<rparr>"

definition env_tick2 :: env where
  "env_tick2 =
     \<lparr>psutil = Some (api_all_raise\<lparr>net_io_counters := Returned (2097152, 20971520)\<rparr>),
      time_now = 2, rng = (\<lambda>n. 0)\<rparr>"

text \<open>\<^verbatim>\<open>random.random()\<close> returns a number in \<open>[0, 1)\<close>.\<close>

definition unit_rng :: "(nat \<Rightarrow> real) \<Rightarrow> bool" where
  "unit_rng g \<longleftrightarrow> (\<forall>n. 0 \<le> g n \<and> g n < 1)"

text \<open>The track (\<^verbatim>\<open>bar\<close>) and the fill (\<^verbatim>\<open>fill\<close>) of \<^verbatim>\<open>NeonBar.paintEvent\<close>, for
  the widget rectangle \<^verbatim>\<open>self.rect()\<close>.\<close>

definition track_rect :: "QRect \<Rightarrow> QRectF" where
  "track_rect self_rect =
     QRectF (of_int (rect_x self_rect + 8)) (of_int (rect_y self_rect + 28))
       (of_int (rect_width self_rect - 16)) 14"

definition fill_rect :: "QRect \<Rightarrow> NeonBar \<Rightarrow> QRectF" where
  "fill_rect self_rect b =
     QRectF (rectf_x (track_rect self_rect)) (rectf_y (track_rect self_rect))
       (rectf_width (track_rect self_rect) * (bar_value b / 100)) 14"

text \<open>
  How far the stored phase may be from the ideal one: after \<open>n\<close> render ticks the phase
  \<open>p\<close> lies in \<open>[0, 1)\<close> and differs from \<open>n * 0.0075\<close>, up to whole turns, by at most
  \<open>n / 2^52\<close>.
\<close>

definition near_ideal :: "nat \<Rightarrow> real \<Rightarrow> bool" where
  "near_ideal n p \<longleftrightarrow>
     0 \<le> p \<and> p < 1 \<and> (\<exists>k::int. \<bar>p - (real n * 0.0075 - of_int k)\<bar> \<le> real n / 2 ^ 52)"

text \<open>The primitives a paint routine returned (none when it raised).\<close>

definition painted :: "error + prim list \<Rightarrow> prim list" where
  "painted res = (case res of Inl err \<Rightarrow> [] | Inr ps \<Rightarrow> ps)"

section \<open>The animation clock\<close>

lemma py_fmod_1: "py_fmod x 1 = frac x"
  by (simp add: py_fmod_def frac_def)

lemma sampleStats_rings: "rings (sampleStats src e h) = rings h"
  by (simp add: sampleStats_def Let_def split: prod.splits)

lemma round_half_even_error: "\<bar>real_of_int (round_half_even m) - m\<bar> \<le> 1 / 2"
  unfolding round_half_even_def Let_def by (simp split: if_splits)

lemma pow2_pos: "0 < pow2 k"
  by (simp add: pow2_def)

lemma pow2_le: "k \<le> - 52 \<Longrightarrow> pow2 k \<le> 1 / 2 ^ 52"
proof -
  assume k: "k \<le> - 52"
  then have "(2::real) ^ 52 \<le> 2 ^ nat (- k)" by (intro power_increasing) simp_all
  then show ?thesis using k by (simp add: pow2_def frac_le)
qed

lemma expo_le_0: "\<bar>x\<bar> < 2 \<Longrightarrow> expo x \<le> 0"
proof -
  assume x: "\<bar>x\<bar> < 2"
  show ?thesis
  proof (cases "1 \<le> \<bar>x\<bar>")
    case True
    then have "\<lfloor>\<bar>x\<bar>\<rfloor> = 1" using x by linarith
    then show ?thesis using True by (simp add: expo_def Let_def bitlen.simps)
  next
    case False
    then show ?thesis by (simp add: expo_def Let_def)
  qed
qed

lemma fl_error:
  assumes "\<bar>x\<bar> < 2"
  shows "\<bar>fl x - x\<bar> \<le> 1 / 2 ^ 53"
proof (cases "x = 0")
  case True
  then show ?thesis by (simp add: fl_def)
next
  case False
  define q where "q = pow2 (expo x - 52)"
  have q0: "0 < q" by (simp add: q_def pow2_pos)
  have q1: "q \<le> 1 / 2 ^ 52" unfolding q_def using expo_le_0 [OF assms] by (intro pow2_le) simp
  have "fl x - x = (real_of_int (round_half_even (x / q)) - x / q) * q"
    using False q0 by (simp add: fl_def Let_def q_def [symmetric] algebra_simps)
  then have "\<bar>fl x - x\<bar> = \<bar>real_of_int (round_half_even (x / q)) - x / q\<bar> * q"
    using q0 by (simp add: abs_mult)
  also have "\<dots> \<le> (1 / 2) * q"
    using round_half_even_error [of "x / q"] q0 by (intro mult_right_mono) simp_all
  also have "\<dots> \<le> (1 / 2) * (1 / 2 ^ 52)" using q1 by simp
  finally show ?thesis by simp
qed

lemma phase_animate: "phase (rings (animate h)) = frac (fl (phase (rings h) + fl 0.0075))"
  by (simp add: animate_def py_fmod_1)

lemma phase_step:
  "phase (rings (step src ev h)) =
     (if is_anim ev then frac (fl (phase (rings h) + fl 0.0075)) else phase (rings h))"
  by (cases ev) (simp_all add: phase_animate sampleStats_rings)

lemma near_ideal_tick:
  assumes "near_ideal n p"
  shows "near_ideal (Suc n) (frac (fl (p + fl 0.0075)))"
proof -
  from assms obtain k :: int where p: "0 \<le> p" "p < 1"
    and k: "\<bar>p - (real n * (3 / 400) - of_int k)\<bar> \<le> real n / 2 ^ 52"
    by (auto simp: near_ideal_def)
  define cd where "cd = fl (3 / 400)"
  have c: "\<bar>cd - 3 / 400\<bar> \<le> 1 / 2 ^ 53" unfolding cd_def by (rule fl_error) simp
  have e: "(1::real) / 2 ^ 53 \<le> 1 / 4" by simp
  have c4: "\<bar>cd - 3 / 400\<bar> \<le> 1 / 4" using c e by (rule order_trans)
  have cb: "cd \<le> 1 / 2" "- 1 / 2 \<le> cd"
    using abs_le_D1 [OF c4] abs_le_D2 [OF c4] by simp_all
  define y where "y = fl (p + cd)"
  have "\<bar>p + cd\<bar> < 2" using p cb by (simp add: abs_less_iff)
  then have y: "\<bar>y - (p + cd)\<bar> \<le> 1 / 2 ^ 53" unfolding y_def by (rule fl_error)
  have fy: "frac y = y - of_int \<lfloor>y\<rfloor>" by (simp add: frac_def)
  have "frac y - (real (Suc n) * (3 / 400) - of_int (k + \<lfloor>y\<rfloor>))
       = (y - (p + cd)) + (p - (real n * (3 / 400) - of_int k)) + (cd - 3 / 400)"
    unfolding fy by (simp add: field_simps)
  then have "\<bar>frac y - (real (Suc n) * (3 / 400) - of_int (k + \<lfloor>y\<rfloor>))\<bar>
       \<le> 1 / 2 ^ 53 + real n / 2 ^ 52 + 1 / 2 ^ 53"
    using y k c by linarith
  also have "\<dots> = real (Suc n) / 2 ^ 52" by (simp add: field_simps)
  finally have "\<exists>j::int. \<bar>frac y - (real (Suc n) * (3 / 400) - of_int j)\<bar> \<le> real (Suc n) / 2 ^ 52"
    by blast
  moreover have "0 \<le> frac y" "frac y < 1" by (simp_all add: frac_lt_1)
  moreover have "fl (p + fl 0.0075) = y" by (simp add: y_def cd_def)
  ultimately show ?thesis
    unfolding near_ideal_def by (simp del: of_nat_Suc)
qed

lemma near_ideal_run:
  "near_ideal n (phase (rings h)) \<Longrightarrow>
   near_ideal (n + render_ticks evs) (phase (rings (run src evs h)))"
proof (induction evs arbitrary: h n)
  case Nil
  then show ?case by (simp add: run_def render_ticks_def)
next
  case (Cons ev evs)
  show ?case
  proof (cases "is_anim ev")
    case True
    have "near_ideal (Suc n) (phase (rings (step src ev h)))"
      using near_ideal_tick [OF Cons.prems] True by (simp add: phase_step)
    from Cons.IH [OF this] show ?thesis using True by (simp add: run_def render_ticks_def)
  next
    case False
    have "near_ideal n (phase (rings (step src ev h)))"
      using Cons.prems False by (simp add: phase_step)
    from Cons.IH [OF this] show ?thesis using False by (simp add: run_def render_ticks_def)
  qed
qed

lemma init_phase: "phase (rings (NovaHUD_init src e)) = 0"
  by (simp add: NovaHUD_init_def sampleStats_rings NovaHUD_widgets_def AnimatedRings_init_def)

text \<open>
  Claim C1, as the code has it. The phase is a double, and each render tick rounds the
  sum \<open>phase + 0.0075\<close> to a double before \<^verbatim>\<open>% 1.0\<close>. The window starts with phase 0.
  After any run of timer slots that holds \<open>N\<close> render ticks, however the metric-sample
  ticks fall between them, the phase lies in \<open>[0, 1)\<close> and equals \<open>(N * 0.0075) mod 1.0\<close>
  up to the accumulated rounding error: it differs from \<open>N * 0.0075 - k\<close>, for some whole
  number \<open>k\<close> of turns, by at most \<open>N / 2^52\<close>.
\<close>

theorem animation_phase_after_ticks:
  "0 \<le> phase (rings (run src evs (NovaHUD_init src e0)))
   \<and> phase (rings (run src evs (NovaHUD_init src e0))) < 1
   \<and> (\<exists>k::int. \<bar>phase (rings (run src evs (NovaHUD_init src e0)))
                   - (real (render_ticks evs) * 0.0075 - of_int k)\<bar>
                \<le> real (render_ticks evs) / 2 ^ 52)"
proof -
  have "near_ideal 0 (phase (rings (NovaHUD_init src e0)))"
    by (simp add: near_ideal_def init_phase)
  from near_ideal_run [OF this, of evs src]
  have "near_ideal (render_ticks evs) (phase (rings (run src evs (NovaHUD_init src e0))))" by simp
  then show ?thesis
    by (simp add: near_ideal_def)
qed

lemmas fl_eval = fl_def expo_def pow2_def round_half_even_def bitlen.simps Let_def

lemma fl_step: "frac (fl (p + fl 0.0075)) = py_fmod (fl (p + fl 0.0075)) 1"
  by (simp add: py_fmod_1)

text \<open>
  After ten render ticks the phase is the double \<open>1351079888211149 / 2^54\<close>
  (0.07500000000000001); \<^verbatim>\<open>(10 * 0.0075) % 1.0\<close> is the double \<open>5404319552844595 / 2^56\<close>
  (0.075), and the exact value is \<open>3/40\<close>.
\<close>

theorem phase_ten_ticks_counterexample:
  "phase (rings (run Nov_py [AnimTimer, AnimTimer, AnimTimer, AnimTimer, AnimTimer,
       AnimTimer, AnimTimer, AnimTimer, AnimTimer, AnimTimer] (NovaHUD_init Nov_py env_no_psutil)))
     = 1351079888211149 / 2 ^ 54
   \<and> render_ticks [AnimTimer, AnimTimer, AnimTimer, AnimTimer, AnimTimer,
       AnimTimer, AnimTimer, AnimTimer, AnimTimer, AnimTimer] = 10
   \<and> py_fmod (fl (10 * fl 0.0075)) 1.0 = 5404319552844595 / 2 ^ 56
   \<and> py_fmod (10 * 0.0075) 1.0 = 3 / 40
   \<and> (1351079888211149 / 2 ^ 54 :: real) \<noteq> 5404319552844595 / 2 ^ 56
   \<and> (1351079888211149 / 2 ^ 54 :: real) \<noteq> 3 / 40"
proof -
  have c: "fl 0.0075 = 1080863910568919 / 2 ^ 57" by (simp add: fl_eval)
  have s: "frac (fl (0 + 1080863910568919 / 2 ^ 57)) = 1080863910568919 / 2 ^ 57"
    "frac (fl (1080863910568919 / 2 ^ 57 + 1080863910568919 / 2 ^ 57)) = 1080863910568919 / 2 ^ 56"
    "frac (fl (1080863910568919 / 2 ^ 56 + 1080863910568919 / 2 ^ 57)) = 3242591731706757 / 2 ^ 57"
    "frac (fl (3242591731706757 / 2 ^ 57 + 1080863910568919 / 2 ^ 57)) = 1080863910568919 / 2 ^ 55"
    "frac (fl (1080863910568919 / 2 ^ 55 + 1080863910568919 / 2 ^ 57)) = 5404319552844595 / 2 ^ 57"
    "frac (fl (5404319552844595 / 2 ^ 57 + 1080863910568919 / 2 ^ 57)) = 3242591731706757 / 2 ^ 56"
    "frac (fl (3242591731706757 / 2 ^ 56 + 1080863910568919 / 2 ^ 57)) = 7566047373982433 / 2 ^ 57"
    "frac (fl (7566047373982433 / 2 ^ 57 + 1080863910568919 / 2 ^ 57)) = 1080863910568919 / 2 ^ 54"
    "frac (fl (1080863910568919 / 2 ^ 54 + 1080863910568919 / 2 ^ 57)) = 607985949695017 / 2 ^ 53"
    "frac (fl (607985949695017 / 2 ^ 53 + 1080863910568919 / 2 ^ 57)) = 1351079888211149 / 2 ^ 54"
    by (simp_all add: fl_eval frac_def)
  have "phase (rings (run Nov_py [AnimTimer, AnimTimer, AnimTimer, AnimTimer, AnimTimer,
       AnimTimer, AnimTimer, AnimTimer, AnimTimer, AnimTimer] (NovaHUD_init Nov_py env_no_psutil)))
     = 1351079888211149 / 2 ^ 54"
    by (simp only: run_def fold_simps step.simps phase_animate init_phase c s o_apply id_apply)
  moreover have "py_fmod (fl (10 * fl 0.0075)) 1.0 = 5404319552844595 / 2 ^ 56"
    by (simp add: c) (simp add: fl_eval py_fmod_def)
  moreover have "py_fmod (10 * 0.0075) 1.0 = 3 / 40"
    by (simp add: py_fmod_def)
  ultimately show ?thesis by (simp add: render_ticks_def)
qed

section \<open>The gauge\<close>

text \<open>
  Claim C2. After \<^verbatim>\<open>setValue(v)\<close> the stored value is \<open>clamp(v, 0, 100)\<close>, whatever
  the gauge held before; for \<open>v\<close> in \<open>[0, 100]\<close> it is \<open>v\<close> itself; and it always lies in
  \<open>[0, 100]\<close>.
\<close>

theorem setValue_clamps:
  "bar_value (setValue v b) = clamp v 0 100
   \<and> (0 \<le> v \<and> v \<le> 100 \<longrightarrow> bar_value (setValue v b) = v)
   \<and> 0 \<le> bar_value (setValue v b) \<and> bar_value (setValue v b) \<le> 100"
  by (simp add: setValue_def clamp_def)

theorem setValue_clamps_witness:
  "(0::real) \<le> 65 \<and> (65::real) \<le> 100
   \<and> bar_value (setValue 65 (NeonBar_init ''BATTERY'' 72 ''rainbow'')) = 65
   \<and> bar_value (setValue 250 (NeonBar_init ''BATTERY'' 72 ''rainbow'')) = 100
   \<and> bar_value (setValue (- 3) (NeonBar_init ''BATTERY'' 72 ''rainbow'')) = 0"
  using setValue_clamps [of 65 "NeonBar_init ''BATTERY'' 72 ''rainbow''"]
    setValue_clamps [of 250 "NeonBar_init ''BATTERY'' 72 ''rainbow''"]
    setValue_clamps [of "- 3" "NeonBar_init ''BATTERY'' 72 ''rainbow''"]
  by (simp add: clamp_def)

section \<open>The ring field\<close>

lemma smoothstep_unit: "smoothstep 0 1 x = Inr (clamp x 0 1 * clamp x 0 1 * (3 - 2 * clamp x 0 1))"
  by (simp add: smoothstep_def Let_def)

lemma dot_alpha_eq: "dot_alpha t = Inr (py_int (80 * pulse t) + 40)"
  by (simp add: dot_alpha_def smoothstep_unit pulse_def Let_def)

lemma draw_dot_eq:
  "draw_dot c r w base k p =
     Inr (p\<lparr>brush := SolidBrush (QColor 80 220 255 (py_int (80 * pulse (dot_t base k)) + 40)),
            prims := prims p @ [dot_prim c r w base (pen p) k]\<rparr>)"
  by (simp add: draw_dot_def dot_alpha_eq Let_def setBrush_def drawEllipse_def emit_def dot_prim_def)

lemma draw_dots_eq:
  "\<exists>p'. draw_dots c r w base ks p = Inr p'
        \<and> prims p' = prims p @ map (dot_prim c r w base (pen p)) ks
        \<and> pen p' = pen p \<and> font p' = font p \<and> antialiasing p' = antialiasing p"
proof (induction ks arbitrary: p)
  case Nil
  then show ?case by simp
next
  case (Cons k ks)
  let ?q = "p\<lparr>brush := SolidBrush (QColor 80 220 255 (py_int (80 * pulse (dot_t base k)) + 40)),
            prims := prims p @ [dot_prim c r w base (pen p) k]\<rparr>"
  obtain p' where "draw_dots c r w base ks ?q = Inr p'"
     "prims p' = prims ?q @ map (dot_prim c r w base (pen ?q)) ks"
     "pen p' = pen ?q" "font p' = font ?q" "antialiasing p' = antialiasing ?q"
    using Cons.IH [of ?q] by blast
  then show ?case by (simp add: draw_dot_eq)
qed

lemma draw_arcs_eq:
  "fold (draw_arc c r w col base) [0..<2] p =
     p\<lparr>pen := QPen col w RoundCap, prims := prims p @ [arc_prim c r w col base 0, arc_prim c r w col base 1]\<rparr>"
proof -
  have "[0..<2] = [0, Suc 0]" by (simp add: upt_rec)
  then show ?thesis
    by (simp add: draw_arc_def Let_def setPen_def drawArc_def emit_def arc_prim_def)
qed

lemma draw_ring_eq:
  "\<exists>p'. draw_ring ph p c r w off col = Inr p'
        \<and> prims p' = prims p @ ring_prims ph c (r, w, off, col)
        \<and> font p' = font p \<and> antialiasing p' = antialiasing p"
proof -
  let ?base = "py_fmod (ph + off) 1"
  let ?q = "setPen NoPen (fold (draw_arc c r w col (py_fmod (fl (ph + fl off)) 1)) [0..<2] p)"
  obtain p' where "draw_dots c r w ?base [0..<dots] ?q = Inr p'"
     "prims p' = prims ?q @ map (dot_prim c r w ?base (pen ?q)) [0..<dots]"
     "font p' = font ?q" "antialiasing p' = antialiasing ?q"
    using draw_dots_eq [of c r w ?base "[0..<dots]" ?q] by blast
  then show ?thesis
    by (simp add: draw_ring_def Let_def draw_arcs_eq setPen_def ring_prims_def)
qed

lemma draw_rings_eq:
  "\<exists>p'. draw_rings ph c rs p = Inr p'
        \<and> prims p' = prims p @ concat (map (ring_prims ph c) rs)
        \<and> font p' = font p \<and> antialiasing p' = antialiasing p"
proof (induction rs arbitrary: p)
  case Nil
  then show ?case by simp
next
  case (Cons rg rs)
  obtain r w off col where rg: "rg = (r, w, off, col)" by (cases rg) auto
  obtain q where q: "draw_ring ph p c r w off col = Inr q"
     "prims q = prims p @ ring_prims ph c (r, w, off, col)"
     "font q = font p" "antialiasing q = antialiasing p"
    using draw_ring_eq [of ph p c r w off col] by blast
  obtain p' where "draw_rings ph c rs q = Inr p'"
     "prims p' = prims q @ concat (map (ring_prims ph c) rs)"
     "font p' = font q" "antialiasing p' = antialiasing q"
    using Cons.IH [of q] by blast
  then show ?case using q by (simp add: rg)
qed

lemma paintEvent_eq:
  "AnimatedRings_paintEvent src rect self =
     Inr ([FillRect rect (QRadialGradient (rings_center rect) (rings_radius rect * 1.8)
                            [(0, rgb 10 12 16), (1, QColor 6 8 12 0)])]
          @ concat (map (ring_prims (phase self) (rings_center rect)) (rings_list (rings_radius rect)))
          @ [DrawText rect {AlignCenter} (center_title src) (QPen (rgb 200 240 255) 1 SquareCap)
               (Some (QFont ''Segoe UI'' 42 Black)),
             DrawText (adjusted rect 0 40 0 0) {AlignHCenter, AlignTop} online_caption
               (QPen (rgb 160 200 255) 1 SquareCap) (Some (QFont ''Segoe UI'' 12 DemiBold))])"
proof -
  obtain cx cy where cc: "rect_center rect = (cx, cy)" by (cases "rect_center rect")
  define c where "c = QPointF (of_int cx) (of_int cy)"
  define rad where "rad = real_of_int (min (rect_width rect) (rect_height rect)) * 0.42"
  define p0 where "p0 = fillRect rect (QRadialGradient c (rad * 1.8)
                 [(0.0, rgb 10 12 16), (1.0, QColor 6 8 12 0)]) (setRenderHint QPainter_new)"
  obtain p' where p': "draw_rings (phase self) c (rings_list rad) p0 = Inr p'"
     "prims p' = prims p0 @ concat (map (ring_prims (phase self) c) (rings_list rad))"
    using draw_rings_eq [of "phase self" c "rings_list rad" p0] by blast
  have eq: "AnimatedRings_paintEvent src rect self =
     (case draw_rings (phase self) c (rings_list rad) p0 of
           Inl err \<Rightarrow> Inl err
         | Inr p \<Rightarrow>
             Inr (prims (drawText (adjusted rect 0 40 0 0) {AlignHCenter, AlignTop} online_caption
                    (setPenColor (rgb 160 200 255) (setFont (QFont ''Segoe UI'' 12 DemiBold)
                      (drawText rect {AlignCenter} (center_title src)
                         (setFont (QFont ''Segoe UI'' 42 Black) (setPenColor (rgb 200 240 255) p))))))))"
    by (simp only: AnimatedRings_paintEvent_def Let_def cc prod.case c_def rad_def p0_def)
  have c: "c = rings_center rect" by (simp add: c_def rings_center_def cc)
  have rad: "rad = rings_radius rect" by (simp add: rad_def rings_radius_def)
  have p0: "prims p0 = [FillRect rect (QRadialGradient c (rad * 1.8) [(0, rgb 10 12 16), (1, QColor 6 8 12 0)])]"
    by (simp add: p0_def fillRect_def emit_def setRenderHint_def QPainter_new_def)
  show ?thesis
    unfolding eq p'(1)
    by (simp add: p'(2) p0 drawText_def emit_def setPenColor_def setFont_def flip: c rad)
qed













lemma dot_prim_not_arc: "\<not> is_arc (dot_prim c r w base pn k)"
  by (simp add: dot_prim_def)

lemma fl_zero: "fl 0 = 0"
  by (simp add: fl_def)

lemma fl_literal_048: "fl (fl (12 / 25)) = fl (12 / 25)"
  by (simp add: fl_eval)

lemma span_sixteenths: "py_int (fl (- 200 * 16)) = - 3200" "py_int (fl (- 120 * 16)) = - 1920"
  by (simp_all add: fl_eval py_int_def)

text \<open>
  Claim C3, as the code has it. For every ring of the five-ring list and every phase
  in \<open>[0, 1)\<close>, \<^verbatim>\<open>_draw_ring\<close> adds exactly two arcs, on the square that bounds the ring's circle and
  with the ring's colour, width and round caps, followed by 36 primitives none of which
  is an arc. Qt receives the angles as integers, in sixteenths of a degree. With \<open>b\<close> the
  double \<open>(phase + offset) % 1.0\<close>, arc 0 starts at \<^verbatim>\<open>int(-start*16)\<close> for the double
  \<open>start = b * 360.0\<close> and spans \<open>-3200\<close> (200 degrees), arc 1 starts at
  \<^verbatim>\<open>int(-start*16)\<close> for the double \<open>start = (b + 0.48) * 360.0\<close> and spans \<open>-1920\<close>
  (120 degrees): the start is the claimed angle as double arithmetic computes it, taken
  clockwise and cut towards zero to a multiple of 1/16 degree. Each \<open>fl\<close> is the rounding
  of one double operation. The three constants do not depend on the ring.
\<close>

theorem ring_draws_two_arcs:
  assumes "(r, w, off, col) \<in> set (rings_list radius)" and "0 \<le> ph" and "ph < 1"
  shows "\<exists>p' ds.
     draw_ring ph p c r w off col = Inr p'
     \<and> prims p' = prims p @
         [DrawArc (QRectF (point_x c - r) (point_y c - r) (r * 2) (r * 2))
            (py_int (fl (- fl (fl (py_fmod (fl (ph + fl off)) 1) * 360) * 16)))
            (- 3200) (QPen col w RoundCap),
          DrawArc (QRectF (point_x c - r) (point_y c - r) (r * 2) (r * 2))
            (py_int (fl (- fl (fl (py_fmod (fl (ph + fl off)) 1 + fl 0.48) * 360) * 16)))
            (- 1920) (QPen col w RoundCap)] @ ds
     \<and> length ds = 36 \<and> (\<forall>d \<in> set ds. \<not> is_arc d)"
proof -
  let ?base = "py_fmod (ph + off) 1"
  let ?b = "py_fmod (fl (ph + fl off)) 1"
  let ?ds = "map (dot_prim c r w ?base NoPen) [0..<dots]"
  obtain p' where p': "draw_ring ph p c r w off col = Inr p'"
      "prims p' = prims p @ ring_prims ph c (r, w, off, col)"
    using draw_ring_eq [of ph p c r w off col] by blast
  have a0: "arc_prim c r w col ?b 0 =
          DrawArc (QRectF (point_x c - r) (point_y c - r) (r * 2) (r * 2))
            (py_int (fl (- fl (fl ?b * 360) * 16))) (- 3200) (QPen col w RoundCap)"
    using span_sixteenths(1) by (simp add: arc_prim_def fl_zero)
  have a1: "arc_prim c r w col ?b 1 =
          DrawArc (QRectF (point_x c - r) (point_y c - r) (r * 2) (r * 2))
            (py_int (fl (- fl (fl (?b + fl 0.48) * 360) * 16))) (- 1920) (QPen col w RoundCap)"
    using span_sixteenths(2) by (simp add: arc_prim_def fl_literal_048)
  have a: "prims p' = prims p @ [arc_prim c r w col ?b 0, arc_prim c r w col ?b 1] @ ?ds"
    by (simp add: p'(2) ring_prims_def)
  have b: "length ?ds = 36" by (simp add: dots_def)
  have c: "\<forall>d \<in> set ?ds. \<not> is_arc d" by (auto simp: dot_prim_not_arc)
  show ?thesis
    using p'(1) a b c unfolding a0 a1 by blast
qed

theorem ring_draws_two_arcs_witness:
  "(222.768, 9, 0, QColor 80 220 255 220) \<in> set (rings_list 218.4)
   \<and> (100.464, 2.2, 0.72, QColor 255 110 200 180) \<in> set (rings_list 218.4)
   \<and> (0::real) \<le> 1080863910568919 / 2 ^ 57 \<and> (1080863910568919 / 2 ^ 57 :: real) < 1
   \<and> take 2 (prims_of (draw_ring (1080863910568919 / 2 ^ 57) QPainter_new (QPointF 259 259)
        222.768 9 0 (QColor 80 220 255 220)))
       = [DrawArc (QRectF (259 - 222.768) (259 - 222.768) (222.768 * 2) (222.768 * 2))
            (- 43) (- 3200) (QPen (QColor 80 220 255 220) 9 RoundCap),
          DrawArc (QRectF (259 - 222.768) (259 - 222.768) (222.768 * 2) (222.768 * 2))
            (- 2808) (- 1920) (QPen (QColor 80 220 255 220) 9 RoundCap)]
   \<and> take 2 (prims_of (draw_ring (1 / 2) QPainter_new (QPointF 259 259)
        100.464 2.2 0.72 (QColor 255 110 200 180)))
       = [DrawArc (QRectF (259 - 100.464) (259 - 100.464) (100.464 * 2) (100.464 * 2))
            (- 1267) (- 3200) (QPen (QColor 255 110 200 180) 2.2 RoundCap),
          DrawArc (QRectF (259 - 100.464) (259 - 100.464) (100.464 * 2) (100.464 * 2))
            (- 4031) (- 1920) (QPen (QColor 255 110 200 180) 2.2 RoundCap)]"
proof -
  have h0: "(222.768, 9, 0, QColor 80 220 255 220) \<in> set (rings_list 218.4)"
    and h4: "(100.464, 2.2, 0.72, QColor 255 110 200 180) \<in> set (rings_list 218.4)"
    by (simp_all add: rings_list_def)
  have e0: "py_int (fl (- fl (fl (py_fmod (fl (1080863910568919 / 2 ^ 57 + fl 0)) 1) * 360) * 16)) = - 43"
    and e1: "py_int (fl (- fl (fl (py_fmod (fl (1080863910568919 / 2 ^ 57 + fl 0)) 1 + fl 0.48) * 360) * 16)) = - 2808"
    and e2: "py_int (fl (- fl (fl (py_fmod (fl (1 / 2 + fl 0.72)) 1) * 360) * 16)) = - 1267"
    and e3: "py_int (fl (- fl (fl (py_fmod (fl (1 / 2 + fl 0.72)) 1 + fl 0.48) * 360) * 16)) = - 4031"
    by (simp_all add: fl_eval py_fmod_def py_int_def)
  have r0: "(0::real) \<le> 1080863910568919 / 2 ^ 57" "(1080863910568919 / 2 ^ 57 :: real) < 1"
    and r4: "(0::real) \<le> 1 / 2" "(1 / 2 :: real) < 1"
    by simp_all
  from ring_draws_two_arcs [OF h0 r0, of QPainter_new "QPointF 259 259"]
  have w0: "take 2 (prims_of (draw_ring (1080863910568919 / 2 ^ 57) QPainter_new (QPointF 259 259)
        222.768 9 0 (QColor 80 220 255 220)))
       = [DrawArc (QRectF (259 - 222.768) (259 - 222.768) (222.768 * 2) (222.768 * 2))
            (- 43) (- 3200) (QPen (QColor 80 220 255 220) 9 RoundCap),
          DrawArc (QRectF (259 - 222.768) (259 - 222.768) (222.768 * 2) (222.768 * 2))
            (- 2808) (- 1920) (QPen (QColor 80 220 255 220) 9 RoundCap)]"
    unfolding e0 e1 by (auto simp: prims_of_def QPainter_new_def)
  from ring_draws_two_arcs [OF h4 r4, of QPainter_new "QPointF 259 259"]
  have w4: "take 2 (prims_of (draw_ring (1 / 2) QPainter_new (QPointF 259 259)
        100.464 2.2 0.72 (QColor 255 110 200 180)))
       = [DrawArc (QRectF (259 - 100.464) (259 - 100.464) (100.464 * 2) (100.464 * 2))
            (- 1267) (- 3200) (QPen (QColor 255 110 200 180) 2.2 RoundCap),
          DrawArc (QRectF (259 - 100.464) (259 - 100.464) (100.464 * 2) (100.464 * 2))
            (- 4031) (- 1920) (QPen (QColor 255 110 200 180) 2.2 RoundCap)]"
    unfolding e2 e3 by (auto simp: prims_of_def QPainter_new_def)
  show ?thesis using h0 h4 r0 w0 w4 by (simp only: simp_thms)
qed

text \<open>
  The window after its first render tick, painted on a 520 by 520 viewport: the phase is
  the double \<open>1080863910568919 / 2^57\<close> (0.0075), so for the outermost ring
  \<open>local_phase * 360\<close> is 2.7 degrees up to rounding; its first arc, the second primitive
  of the paint, starts at \<open>-43\<close> sixteenths, that is 2.6875 degrees clockwise.
\<close>

theorem arc_start_counterexample:
  "arc_start16 (painted (AnimatedRings_paintEvent Nov_py (QRect 0 0 520 520)
       (rings (run Nov_py [AnimTimer] (NovaHUD_init Nov_py env_no_psutil)))) ! 1) = Some (- 43)
   \<and> phase (rings (run Nov_py [AnimTimer] (NovaHUD_init Nov_py env_no_psutil)))
       = 1080863910568919 / 2 ^ 57
   \<and> real_of_int (- 43) / 16 \<noteq> - (py_fmod (1080863910568919 / 2 ^ 57 + 0.00) 1.0 * 360)
   \<and> real_of_int 43 / 16 \<noteq> py_fmod (1080863910568919 / 2 ^ 57 + 0.00) 1.0 * 360"
proof -
  let ?h = "run Nov_py [AnimTimer] (NovaHUD_init Nov_py env_no_psutil)"
  have ph: "phase (rings ?h) = 1080863910568919 / 2 ^ 57"
    by (simp add: run_def phase_animate init_phase) (simp add: fl_eval frac_def)
  have c: "rings_center (QRect 0 0 520 520) = QPointF 259 259"
    by (simp add: rings_center_def c_div_def)
  have n: "painted (AnimatedRings_paintEvent Nov_py (QRect 0 0 520 520) (rings ?h)) ! 1
        = arc_prim (QPointF 259 259) (rings_radius (QRect 0 0 520 520) * 1.02) 9 (QColor 80 220 255 220)
            (py_fmod (fl (phase (rings ?h) + fl 0.00)) 1) 0"
    by (simp add: paintEvent_eq painted_def rings_list_def ring_prims_def c)
  have "arc_start16 (arc_prim (QPointF 259 259) (rings_radius (QRect 0 0 520 520) * 1.02) 9
            (QColor 80 220 255 220) (py_fmod (fl (1080863910568919 / 2 ^ 57 + fl 0.00)) 1) 0) = Some (- 43)"
    by (simp add: arc_prim_def) (simp add: fl_eval py_fmod_def py_int_def)
  then have "arc_start16 (painted (AnimatedRings_paintEvent Nov_py (QRect 0 0 520 520) (rings ?h)) ! 1)
        = Some (- 43)"
    by (simp only: n ph)
  moreover have "real_of_int (- 43) / 16 \<noteq> - (py_fmod (1080863910568919 / 2 ^ 57 + 0.00) 1.0 * 360)"
    "real_of_int 43 / 16 \<noteq> py_fmod (1080863910568919 / 2 ^ 57 + 0.00) 1.0 * 360"
    by (simp_all add: py_fmod_def)
  ultimately show ?thesis using ph by (simp only: simp_thms)
qed




text \<open>
  Claim C10. For every ring of the five-ring list and every phase, \<^verbatim>\<open>_draw_ring\<close>
  adds two arcs and then 36 ellipses, each filled with \<open>QColor(80, 220, 255, a)\<close> for some
  alpha \<open>a\<close> and drawn without pen, whatever the ring's own colour is.
\<close>

theorem orbit_dots_cyan:
  assumes "(r, w, off, col) \<in> set (rings_list radius)"
  shows "\<exists>p' arcs ds.
     draw_ring ph p c r w off col = Inr p'
     \<and> prims p' = prims p @ arcs @ ds
     \<and> length arcs = 2 \<and> (\<forall>d \<in> set arcs. is_arc d)
     \<and> length ds = 36
     \<and> (\<forall>d \<in> set ds. \<exists>pt a. d = DrawEllipse pt 2.2 2.2 NoPen (SolidBrush (QColor 80 220 255 a)))"
proof -
  let ?base = "py_fmod (ph + off) 1"
  let ?arcs = "[arc_prim c r w col (py_fmod (fl (ph + fl off)) 1) 0,
                arc_prim c r w col (py_fmod (fl (ph + fl off)) 1) 1]"
  let ?ds = "map (dot_prim c r w ?base NoPen) [0..<dots]"
  obtain p' where p': "draw_ring ph p c r w off col = Inr p'"
      "prims p' = prims p @ ring_prims ph c (r, w, off, col)"
    using draw_ring_eq [of ph p c r w off col] by blast
  have a: "prims p' = prims p @ ?arcs @ ?ds" by (simp add: p'(2) ring_prims_def)
  have b: "length ?arcs = 2" "\<forall>d \<in> set ?arcs. is_arc d" by (simp_all add: arc_prim_def)
  have c: "length ?ds = 36" by (simp add: dots_def)
  have d: "\<forall>d \<in> set ?ds. \<exists>pt a. d = DrawEllipse pt 2.2 2.2 NoPen (SolidBrush (QColor 80 220 255 a))"
    by (auto simp: dot_prim_def)
  show ?thesis using p'(1) a b c d by blast
qed

theorem orbit_dots_cyan_witness:
  "(46, 2.2, 0.72, QColor 255 110 200 180) \<in> set (rings_list 100)
   \<and> prim_rgb (prims_of (draw_ring 0 QPainter_new (QPointF 0 0) 46 2.2 0.72 (QColor 255 110 200 180)) ! 2)
       = Some (80, 220, 255)
   \<and> prim_rgb (prims_of (draw_ring 0 QPainter_new (QPointF 0 0) 46 2.2 0.72 (QColor 255 110 200 180)) ! 37)
       = Some (80, 220, 255)"
proof -
  have h: "(46, 2.2, 0.72, QColor 255 110 200 180) \<in> set (rings_list 100)"
    by (simp add: rings_list_def)
  obtain p' arcs ds where f: "draw_ring 0 QPainter_new (QPointF 0 0) 46 2.2 0.72 (QColor 255 110 200 180) = Inr p'"
     "prims p' = prims QPainter_new @ arcs @ ds" "length arcs = 2" "length ds = 36"
     "\<forall>d \<in> set ds. \<exists>pt a. d = DrawEllipse pt 2.2 2.2 NoPen (SolidBrush (QColor 80 220 255 a))"
    using orbit_dots_cyan [OF h, of 0 QPainter_new "QPointF 0 0"] by blast
  have n: "prims p' ! 2 = ds ! 0" "prims p' ! 37 = ds ! 35"
    using f(2,3) by (simp_all add: QPainter_new_def nth_append)
  have "ds ! 0 \<in> set ds" "ds ! 35 \<in> set ds" using f(4) by simp_all
  then have "prim_rgb (ds ! 0) = Some (80, 220, 255)" "prim_rgb (ds ! 35) = Some (80, 220, 255)"
    using f(5) by fastforce+
  then show ?thesis using h f(1) n by (simp add: prims_of_def)
qed

section \<open>The metric-sample tick\<close>

lemmas str_eval = format_1f_def round_half_even_def str_nat.simps digit_char_def char_of_def
  bit_Suc_0_iff

lemma clamp_clamp: "clamp (clamp x 0 100) 0 100 = clamp x 0 100"
  by (simp add: clamp_def)

lemma sampleStats_battery:
  "battery (sampleStats src e h) = setValue (battery_arg src (sampled_batt e)) (battery h)"
  by (simp add: sampleStats_def sampled_batt_def Let_def split: prod.splits)

lemma sampleStats_net:
  "net (sampleStats src e h) = fst (sample_network e (net_rng e) (net h) (last_bytes h))"
  by (simp add: sampleStats_def net_rng_def Let_def split: prod.splits)

lemma sampleStats_last_bytes:
  "last_bytes (sampleStats src e h) = snd (sample_network e (net_rng e) (net h) (last_bytes h))"
  by (simp add: sampleStats_def net_rng_def Let_def split: prod.splits)

lemma sample_network_some:
  assumes "psutil e = Some api" "net_io_counters api = Returned (s1, r1)"
  shows "up_text (fst (sample_network e g n (Some (s0, r0)))) =
           ''Upload: '' @ format_1f (real_of_int (s1 - s0) / 1024 / 1024) @ '' MB/s''"
    and "down_text (fst (sample_network e g n (Some (s0, r0)))) =
           ''Download: '' @ format_1f (real_of_int (r1 - r0) / 1024 / 1024) @ '' MB/s''"
    and "snd (sample_network e g n (Some (s0, r0))) = Some (s1, r1)"
  using assms by (simp_all add: sample_network_def Let_def split: call.splits)

lemma sample_network_none:
  assumes "psutil e = Some api" "net_io_counters api = Returned nowb"
  shows "up_text (fst (sample_network e g n None)) = up_text n"
    and "down_text (fst (sample_network e g n None)) = down_text n"
    and "snd (sample_network e g n None) = Some nowb"
  using assms by (simp_all add: sample_network_def Let_def split: call.splits)

lemma sample_network_raised:
  assumes "psutil e = Some api" "net_io_counters api = Raised"
  shows "up_text (fst (sample_network e g n lastb)) = up_text n"
    and "down_text (fst (sample_network e g n lastb)) = down_text n"
    and "snd (sample_network e g n lastb) = lastb"
  using assms by (simp_all add: sample_network_def Let_def split: call.splits)

text \<open>
  Claim C6, as the code has it. When \<^verbatim>\<open>psutil\<close> is present and \<^verbatim>\<open>net_io_counters\<close>
  returns the counters \<open>(s1, r1)\<close>: if a previous sample \<open>(s0, r0)\<close> is stored, the labels
  become \<^verbatim>\<open>Upload: {up:.1f} MB/s\<close> and \<^verbatim>\<open>Download: {down:.1f} MB/s\<close> with
  \<open>up = (s1 - s0) / 1024 / 1024\<close> and \<open>down = (r1 - r0) / 1024 / 1024\<close>, the byte
  difference of the two ticks with no division by the time between them; if none is
  stored, the two labels stay as they are. In both cases the counters are stored.
\<close>

theorem network_throughput:
  "(psutil e = Some api \<and> net_io_counters api = Returned (s1, r1) \<and> last_bytes h = Some (s0, r0) \<longrightarrow>
      up_text (net (sampleStats src e h)) =
        ''Upload: '' @ format_1f (real_of_int (s1 - s0) / 1024 / 1024) @ '' MB/s''
      \<and> down_text (net (sampleStats src e h)) =
        ''Download: '' @ format_1f (real_of_int (r1 - r0) / 1024 / 1024) @ '' MB/s''
      \<and> last_bytes (sampleStats src e h) = Some (s1, r1))
   \<and> (psutil e = Some api \<and> net_io_counters api = Returned (s1, r1) \<and> last_bytes h = None \<longrightarrow>
      up_text (net (sampleStats src e h)) = up_text (net h)
      \<and> down_text (net (sampleStats src e h)) = down_text (net h)
      \<and> last_bytes (sampleStats src e h) = Some (s1, r1))"
  by (simp add: sampleStats_net sampleStats_last_bytes sample_network_some sample_network_none)

theorem network_throughput_witness:
  "psutil env_tick1 = Some (api_all_raise\<lparr>net_io_counters := Returned (1048576, 10485760)\<rparr>)
   \<and> up_text (net (sampleStats Nov_py env_tick1 (sampleStats Nov_py env_tick0 NovaHUD_widgets))) = ''Upload: 1.0 MB/s''
   \<and> down_text (net (sampleStats Nov_py env_tick1 (sampleStats Nov_py env_tick0 NovaHUD_widgets))) = ''Download: 10.0 MB/s''
   \<and> up_text (net (sampleStats Nov_py env_tick0 NovaHUD_widgets)) = ''Upload: 0.0 MB/s''
   \<and> last_bytes (sampleStats Nov_py env_tick0 NovaHUD_widgets) = Some (0, 0)"
proof -
  have p0: "psutil env_tick0 = Some (api_all_raise\<lparr>net_io_counters := Returned (0, 0)\<rparr>)"
    and n0: "net_io_counters (api_all_raise\<lparr>net_io_counters := Returned (0, 0)\<rparr>) = Returned (0, 0)"
    and l0: "last_bytes NovaHUD_widgets = None"
    by (simp_all add: env_tick0_def NovaHUD_widgets_def)
  have p1: "psutil env_tick1 = Some (api_all_raise\<lparr>net_io_counters := Returned (1048576, 10485760)\<rparr>)"
    and n1: "net_io_counters (api_all_raise\<lparr>net_io_counters := Returned (1048576, 10485760)\<rparr>) = Returned (1048576, 10485760)"
    by (simp_all add: env_tick1_def)
  have first: "up_text (net (sampleStats Nov_py env_tick0 NovaHUD_widgets)) = up_text (net NovaHUD_widgets)"
      "last_bytes (sampleStats Nov_py env_tick0 NovaHUD_widgets) = Some (0, 0)"
    using network_throughput [of env_tick0 "api_all_raise\<lparr>net_io_counters := Returned (0, 0)\<rparr>" 0 0
        NovaHUD_widgets 0 0 Nov_py] p0 n0 l0
    by simp_all
  have second: "up_text (net (sampleStats Nov_py env_tick1 (sampleStats Nov_py env_tick0 NovaHUD_widgets))) =
        ''Upload: '' @ format_1f (real_of_int (1048576 - 0) / 1024 / 1024) @ '' MB/s''"
      "down_text (net (sampleStats Nov_py env_tick1 (sampleStats Nov_py env_tick0 NovaHUD_widgets))) =
        ''Download: '' @ format_1f (real_of_int (10485760 - 0) / 1024 / 1024) @ '' MB/s''"
    using network_throughput [of env_tick1 "api_all_raise\<lparr>net_io_counters := Returned (1048576, 10485760)\<rparr>"
        1048576 10485760 "sampleStats Nov_py env_tick0 NovaHUD_widgets" 0 0 Nov_py] p1 n1 first(2)
    by simp_all
  have f1: "format_1f (real_of_int (1048576 - 0) / 1024 / 1024) = ''1.0''"
    and f10: "format_1f (real_of_int (10485760 - 0) / 1024 / 1024) = ''10.0''"
    by (simp_all add: str_eval)
  show ?thesis
    using p1 first second f1 f10 by (simp add: NovaHUD_widgets_def NetworkStats_init_def)
qed

text \<open>
  Two ticks two seconds apart, the counters going from \<open>(0, 0)\<close> to \<open>(2097152, 20971520)\<close>:
  the label shows 2.0 MB/s, and the bytes divided by the elapsed seconds are 1.0 MB/s.
\<close>

theorem throughput_counterexample:
  "up_text (net (sampleStats Nov_py env_tick2 (sampleStats Nov_py env_tick0 NovaHUD_widgets))) = ''Upload: 2.0 MB/s''
   \<and> time_now env_tick2 - time_now env_tick0 = 2
   \<and> ''Upload: '' @ format_1f (real_of_int (2097152 - 0) / (time_now env_tick2 - time_now env_tick0) / 1048576) @ '' MB/s''
       = ''Upload: 1.0 MB/s''
   \<and> up_text (net (sampleStats Nov_py env_tick2 (sampleStats Nov_py env_tick0 NovaHUD_widgets)))
       \<noteq> ''Upload: '' @ format_1f (real_of_int (2097152 - 0) / (time_now env_tick2 - time_now env_tick0) / 1048576) @ '' MB/s''"
proof -
  have p0: "psutil env_tick0 = Some (api_all_raise\<lparr>net_io_counters := Returned (0, 0)\<rparr>)"
    and n0: "net_io_counters (api_all_raise\<lparr>net_io_counters := Returned (0, 0)\<rparr>) = Returned (0, 0)"
    by (simp_all add: env_tick0_def)
  have p2: "psutil env_tick2 = Some (api_all_raise\<lparr>net_io_counters := Returned (2097152, 20971520)\<rparr>)"
    and n2: "net_io_counters (api_all_raise\<lparr>net_io_counters := Returned (2097152, 20971520)\<rparr>) = Returned (2097152, 20971520)"
    by (simp_all add: env_tick2_def)
  have l: "last_bytes (sampleStats Nov_py env_tick0 NovaHUD_widgets) = Some (0, 0)"
    by (simp add: sampleStats_last_bytes sample_network_none(3) [OF p0 n0] NovaHUD_widgets_def)
  have "up_text (net (sampleStats Nov_py env_tick2 (sampleStats Nov_py env_tick0 NovaHUD_widgets))) =
        ''Upload: '' @ format_1f (real_of_int (2097152 - 0) / 1024 / 1024) @ '' MB/s''"
    by (simp only: sampleStats_net l sample_network_some(1) [OF p2 n2])
  moreover have "format_1f (real_of_int (2097152 - 0) / 1024 / 1024) = ''2.0''"
    by (simp add: str_eval)
  moreover have "time_now env_tick2 - time_now env_tick0 = 2"
    by (simp add: env_tick2_def env_tick0_def)
  moreover have "format_1f (real_of_int (2097152 - 0) / 2 / 1048576) = ''1.0''"
    by (simp add: str_eval)
  ultimately show ?thesis by simp
qed

lemma sampled_batt_sensor:
  assumes "psutil e = Some api" "has_sensors_battery api" "sensors_battery api = Returned (Some b)"
  shows "sampled_batt e = b"
  using assms by (simp add: sampled_batt_def read_batt_def Let_def split: prod.splits)

lemma battery_arg_Nov: "battery_arg Nov_py x = clamp (60 + x * 0.2) 0 100"
  by (simp add: battery_arg_def)

lemma clamp_id: "0 \<le> x \<Longrightarrow> x \<le> 100 \<Longrightarrow> clamp x 0 100 = x"
  by (simp add: clamp_def)

text \<open>
  Claim C9, as the code has it. With \<open>batt\<close> the battery percentage that a call of
  \<^verbatim>\<open>sampleStats\<close> obtains (the sensor's reading when there is one): in
  \<^verbatim>\<open>src/nov.py\<close> the BATTERY gauge stores \<open>clamp(60 + batt * 0.2, 0, 100)\<close>; in
  \<^verbatim>\<open>src/nova.py\<close> it stores \<open>clamp(batt, 0, 100)\<close>, the percentage itself.
\<close>

theorem battery_gauge_value:
  "bar_value (battery (sampleStats Nov_py e h)) = clamp (60 + sampled_batt e * 0.2) 0 100
   \<and> bar_value (battery (sampleStats Nova_py e h)) = clamp (sampled_batt e) 0 100
   \<and> (psutil e = Some api \<and> has_sensors_battery api \<and> sensors_battery api = Returned (Some b)
        \<longrightarrow> sampled_batt e = b)"
proof -
  have "bar_value (battery (sampleStats Nov_py e h)) = clamp (60 + sampled_batt e * 0.2) 0 100"
    by (simp add: sampleStats_battery setValue_def battery_arg_Nov clamp_clamp)
  moreover have "bar_value (battery (sampleStats Nova_py e h)) = clamp (sampled_batt e) 0 100"
    by (simp add: sampleStats_battery setValue_def battery_arg_def clamp_clamp)
  ultimately show ?thesis
    using sampled_batt_sensor [of e api b] by blast
qed

theorem battery_gauge_value_witness:
  "psutil env_batt50 = Some (api_all_raise\<lparr>sensors_battery := Returned (Some 50)\<rparr>)
   \<and> has_sensors_battery (api_all_raise\<lparr>sensors_battery := Returned (Some 50)\<rparr>)
   \<and> sensors_battery (api_all_raise\<lparr>sensors_battery := Returned (Some 50)\<rparr>) = Returned (Some 50)
   \<and> bar_value (battery (sampleStats Nov_py env_batt50 NovaHUD_widgets)) = 70
   \<and> bar_value (battery (sampleStats Nova_py env_batt50 NovaHUD_widgets)) = 50"
proof -
  have h: "psutil env_batt50 = Some (api_all_raise\<lparr>sensors_battery := Returned (Some 50)\<rparr>)"
     "has_sensors_battery (api_all_raise\<lparr>sensors_battery := Returned (Some 50)\<rparr>)"
     "sensors_battery (api_all_raise\<lparr>sensors_battery := Returned (Some 50)\<rparr>) = Returned (Some 50)"
    by (simp_all add: env_batt50_def api_all_raise_def)
  show ?thesis
    using h battery_gauge_value [of env_batt50 NovaHUD_widgets
        "api_all_raise\<lparr>sensors_battery := Returned (Some 50)\<rparr>" 50]
    by (simp add: clamp_def)
qed

text \<open>
  With a battery at 50 percent, \<^verbatim>\<open>src/nova.py\<close> stores 50 in the BATTERY gauge; the
  pseudo-temperature formula gives 70.
\<close>

theorem battery_formula_counterexample:
  "bar_value (battery (sampleStats Nova_py env_batt50 NovaHUD_widgets)) = 50
   \<and> sampled_batt env_batt50 = 50
   \<and> clamp (60 + sampled_batt env_batt50 * 0.2) 0 100 = 70
   \<and> bar_value (battery (sampleStats Nova_py env_batt50 NovaHUD_widgets))
       \<noteq> clamp (60 + sampled_batt env_batt50 * 0.2) 0 100"
proof -
  have h: "psutil env_batt50 = Some (api_all_raise\<lparr>sensors_battery := Returned (Some 50)\<rparr>)"
     "has_sensors_battery (api_all_raise\<lparr>sensors_battery := Returned (Some 50)\<rparr>)"
     "sensors_battery (api_all_raise\<lparr>sensors_battery := Returned (Some 50)\<rparr>) = Returned (Some 50)"
    by (simp_all add: env_batt50_def api_all_raise_def)
  have b: "sampled_batt env_batt50 = 50" by (rule sampled_batt_sensor [OF h])
  show ?thesis
    by (simp add: sampleStats_battery setValue_def battery_arg_def b clamp_def)
qed

lemma sampleStats_cpu_util:
  "cpu_util (sampleStats src e h) = setValue (fst (read_or_uniform e cpu_percent 8 88 (rng e))) (cpu_util h)"
  by (simp add: sampleStats_def Let_def split: prod.splits)

lemma sin_bounds: "- 1 \<le> sin (x::real) \<and> sin x \<le> 1"
  by simp

text \<open>
  Claim C7, as the code has it. When every provider call of a cycle raises,
  \<^verbatim>\<open>sampleStats\<close> still returns, and each gauge is set to a value synthesised in that
  cycle from the clock and the random numbers it draws (each in \<open>[0, 1)\<close>), whatever the
  gauge showed before: \<open>uniform(8, 88)\<close> for the CPU, \<open>48 + 12 sin(t/6.5) + uniform(-2, 2)\<close>
  for the temperature, the battery value of \<open>70 + 8 sin(t/10) + uniform(-4, 4)\<close>,
  \<open>uniform(22, 86)\<close> for the memory and \<open>uniform(12, 88)\<close> for the disk. Only the two
  throughput labels and the stored byte counters keep the previous cycle's value.
\<close>

theorem sampleStats_provider_raises:
  assumes "psutil e = Some api"
    and "cpu_percent api = Raised" and "sensors_temperatures api = Raised"
    and "sensors_battery api = Raised" and "virtual_memory api = Raised"
    and "disk_usage api = Raised" and "net_io_counters api = Raised"
    and "unit_rng (rng e)"
  shows "bar_value (cpu_util (sampleStats src e h)) = 8 + 80 * rng e 0
     \<and> bar_value (cpu_temp (sampleStats src e h)) = 48 + 12 * sin (time_now e / 6.5) + (- 2 + 4 * rng e 1)
     \<and> bar_value (battery (sampleStats src e h)) = battery_arg src (70 + 8 * sin (time_now e / 10) + (- 4 + 8 * rng e 2))
     \<and> bar_value (mem (sampleStats src e h)) = 22 + 64 * rng e 3
     \<and> bar_value (disk (sampleStats src e h)) = 12 + 76 * rng e 4
     \<and> up_text (net (sampleStats src e h)) = up_text (net h)
     \<and> down_text (net (sampleStats src e h)) = down_text (net h)
     \<and> last_bytes (sampleStats src e h) = last_bytes h"
proof -
  have u: "\<And>n. 0 \<le> rng e n" "\<And>n. rng e n < 1" using assms(8) by (simp_all add: unit_rng_def)
  have c0: "clamp (8 + 80 * rng e 0) 0 100 = 8 + 80 * rng e 0"
    using u(1) [of 0] u(2) [of 0] by (intro clamp_id) linarith+
  have c1: "clamp (48 + 12 * sin (time_now e / 6.5) + (- 2 + 4 * rng e 1)) 0 100
            = 48 + 12 * sin (time_now e / 6.5) + (- 2 + 4 * rng e 1)"
    using u(1) [of 1] u(2) [of 1] sin_ge_minus_one [of "time_now e / 6.5"] sin_le_one [of "time_now e / 6.5"]
    by (intro clamp_id) linarith+
  have c3: "clamp (22 + 64 * rng e 3) 0 100 = 22 + 64 * rng e 3"
    using u(1) [of 3] u(2) [of 3] by (simp add: clamp_def)
  have c4: "clamp (12 + 76 * rng e 4) 0 100 = 12 + 76 * rng e 4"
    using u(1) [of 4] u(2) [of 4] by (simp add: clamp_def)
  have cb: "clamp (battery_arg src x) 0 100 = battery_arg src x" for x
    by (cases src) (simp_all add: battery_arg_def clamp_def)
  have n3: "Suc (Suc (Suc 0)) = 3" and n4: "Suc (Suc (Suc (Suc 0))) = 4" by simp_all
  have cpu: "bar_value (cpu_util (sampleStats src e h)) = clamp (8 + 80 * rng e 0) 0 100"
    using assms(1-7)
    by (simp add: sampleStats_def Let_def read_or_uniform_def uniform_def setValue_def split: prod.splits)
  have temp: "bar_value (cpu_temp (sampleStats src e h))
       = clamp (clamp (48 + 12 * sin (time_now e / 6.5) + (- 2 + 4 * rng e 1)) 0 100) 0 100"
    using assms(1-7)
    by (simp add: sampleStats_def Let_def read_or_uniform_def read_temp_def uniform_def setValue_def
        split: prod.splits)
  have batt: "bar_value (battery (sampleStats src e h))
       = clamp (battery_arg src (70 + 8 * sin (time_now e / 10) + (- 4 + 8 * rng e 2))) 0 100"
    using assms(1-7)
    by (simp add: sampleStats_def Let_def read_or_uniform_def read_temp_def read_batt_def uniform_def
        setValue_def numeral_2_eq_2 split: prod.splits)
  have memv: "bar_value (mem (sampleStats src e h)) = clamp (22 + 64 * rng e 3) 0 100"
    using assms(1-7)
    by (simp add: sampleStats_def Let_def read_or_uniform_def read_temp_def read_batt_def uniform_def
        setValue_def n3 split: prod.splits)
  have diskv: "bar_value (disk (sampleStats src e h)) = clamp (12 + 76 * rng e 4) 0 100"
    using assms(1-7)
    by (simp add: sampleStats_def Let_def read_or_uniform_def read_temp_def read_batt_def uniform_def
        setValue_def n3 n4 split: prod.splits)
  have netv: "up_text (net (sampleStats src e h)) = up_text (net h)"
      "down_text (net (sampleStats src e h)) = down_text (net h)"
      "last_bytes (sampleStats src e h) = last_bytes h"
    by (simp_all add: sampleStats_net sampleStats_last_bytes sample_network_raised [OF assms(1) assms(7)])
  show ?thesis
    using cpu temp batt memv diskv netv by (simp only: c0 c1 c3 c4 cb clamp_clamp simp_thms)
qed

theorem sampleStats_provider_raises_witness:
  "psutil env_all_raise = Some api_all_raise
   \<and> cpu_percent api_all_raise = Raised \<and> sensors_temperatures api_all_raise = Raised
   \<and> sensors_battery api_all_raise = Raised \<and> virtual_memory api_all_raise = Raised
   \<and> disk_usage api_all_raise = Raised \<and> net_io_counters api_all_raise = Raised
   \<and> unit_rng (rng env_all_raise)
   \<and> bar_value (cpu_util (sampleStats Nova_py env_all_raise NovaHUD_widgets)) = 8
   \<and> bar_value (cpu_temp (sampleStats Nova_py env_all_raise NovaHUD_widgets)) = 46
   \<and> bar_value (battery (sampleStats Nova_py env_all_raise NovaHUD_widgets)) = 66
   \<and> bar_value (mem (sampleStats Nova_py env_all_raise NovaHUD_widgets)) = 22
   \<and> bar_value (disk (sampleStats Nova_py env_all_raise NovaHUD_widgets)) = 12
   \<and> up_text (net (sampleStats Nova_py env_all_raise NovaHUD_widgets)) = ''Upload: 0.0 MB/s''"
proof -
  have h: "psutil env_all_raise = Some api_all_raise"
     "cpu_percent api_all_raise = Raised" "sensors_temperatures api_all_raise = Raised"
     "sensors_battery api_all_raise = Raised" "virtual_memory api_all_raise = Raised"
     "disk_usage api_all_raise = Raised" "net_io_counters api_all_raise = Raised"
     "unit_rng (rng env_all_raise)"
    by (simp_all add: env_all_raise_def api_all_raise_def unit_rng_def)
  have v: "rng env_all_raise = (\<lambda>n. 0)" "time_now env_all_raise = 0"
    by (simp_all add: env_all_raise_def)
  show ?thesis
    using h sampleStats_provider_raises [OF h, of Nova_py NovaHUD_widgets]
    by (simp add: v battery_arg_def clamp_def NovaHUD_widgets_def NetworkStats_init_def)
qed

text \<open>
  The CPU gauge shows 65 after construction; a cycle in which \<^verbatim>\<open>cpu_percent\<close> raises and
  \<^verbatim>\<open>random.random()\<close> returns 0 sets it to 8.
\<close>

theorem provider_raises_counterexample:
  "cpu_percent api_all_raise = Raised
   \<and> bar_value (cpu_util NovaHUD_widgets) = 65
   \<and> bar_value (cpu_util (sampleStats Nov_py env_all_raise NovaHUD_widgets)) = 8
   \<and> bar_value (cpu_util (sampleStats Nov_py env_all_raise NovaHUD_widgets))
       \<noteq> bar_value (cpu_util NovaHUD_widgets)"
  by (simp add: sampleStats_cpu_util read_or_uniform_def uniform_def env_all_raise_def api_all_raise_def
      setValue_def clamp_def NovaHUD_widgets_def NeonBar_init_def)

section \<open>The gauge's paint routine\<close>

lemma NeonBar_paintEvent_eq:
  "NeonBar_paintEvent self_rect b =
     [DrawRoundedRect (toRectF self_rect) 10 10 NoPen (SolidBrush (QColor 14 18 24 220)),
      DrawText (QRect (rect_x self_rect + 8) (rect_y self_rect + 6) (rect_width self_rect - 16) 16)
        {AlignLeft, AlignTop} (upper (bar_title b)) (QPen (rgb 170 190 210) 1 SquareCap)
        (Some (QFont ''Segoe UI'' 10 Bold)),
      DrawRoundedRect (track_rect self_rect) 8 8 NoPen (SolidBrush (QColor 28 36 48 220)),
      DrawRoundedRect (fill_rect self_rect b) 8 8 NoPen
        (QLinearGradient (topLeft (fill_rect self_rect b)) (topRight (fill_rect self_rect b))
           (gradient_stops (bar_style b))),
      DrawLine (point_add (topLeft (track_rect self_rect)) (QPointF 0 1))
        (point_add (topRight (track_rect self_rect)) (QPointF 0 1))
        (QPen (QColor 255 255 255 70) 1 SquareCap),
      DrawText (adjusted self_rect 8 8 (- 8) (- 8)) {AlignRight, AlignVCenter}
        (str_int (py_int (bar_value b)) @ (if bar_unit b \<noteq> [] then bar_unit b else ''%''))
        (QPen (rgb 230 240 255) 1 SquareCap) (Some (QFont ''Consolas'' 11 DemiBold))]"
  by (cases self_rect)
     (simp add: NeonBar_paintEvent_def Let_def track_rect_def fill_rect_def setRenderHint_def
        QPainter_new_def setPen_def setBrush_def setPenColor_def setFont_def drawRoundedRect_def
        drawText_def drawLine_def emit_def)

text \<open>
  Claim C5. \<^verbatim>\<open>NeonBar.paintEvent\<close> draws, as its third primitive, the track: a rounded
  rectangle 16 pixels narrower than the widget; and as its fourth the fill: a rounded
  rectangle with the track's origin and height and of width \<open>track_width * value / 100\<close>,
  so of width 0 for the value 0 and of the track's width for the value 100. The fill's
  brush is a linear gradient from the fill's top left to its top right corner, with the
  stops of the style: \<^verbatim>\<open>'rainbow'\<close> (spectrum), \<^verbatim>\<open>'pink'\<close> (magenta), \<^verbatim>\<open>'green'\<close>
  (emerald), and the blue to violet stops (azure) for every other style string.
\<close>

theorem gauge_fill_render:
  "NeonBar_paintEvent self_rect b ! 2 =
      DrawRoundedRect (track_rect self_rect) 8 8 NoPen (SolidBrush (QColor 28 36 48 220))
   \<and> NeonBar_paintEvent self_rect b ! 3 =
      DrawRoundedRect (fill_rect self_rect b) 8 8 NoPen
        (QLinearGradient (topLeft (fill_rect self_rect b)) (topRight (fill_rect self_rect b))
           (gradient_stops (bar_style b)))
   \<and> rectf_width (track_rect self_rect) = real_of_int (rect_width self_rect - 16)
   \<and> rectf_width (fill_rect self_rect b) = rectf_width (track_rect self_rect) * bar_value b / 100
   \<and> rectf_x (fill_rect self_rect b) = rectf_x (track_rect self_rect)
   \<and> rectf_y (fill_rect self_rect b) = rectf_y (track_rect self_rect)
   \<and> topLeft (fill_rect self_rect b) = QPointF (rectf_x (fill_rect self_rect b)) (rectf_y (fill_rect self_rect b))
   \<and> topRight (fill_rect self_rect b) =
        QPointF (rectf_x (fill_rect self_rect b) + rectf_width (fill_rect self_rect b)) (rectf_y (fill_rect self_rect b))
   \<and> (bar_value b = 0 \<longrightarrow> rectf_width (fill_rect self_rect b) = 0)
   \<and> (bar_value b = 100 \<longrightarrow> rectf_width (fill_rect self_rect b) = rectf_width (track_rect self_rect))
   \<and> (bar_style b = ''rainbow'' \<longrightarrow>
        gradient_stops (bar_style b) = [(0, rgb 30 220 140), (1 / 2, rgb 255 200 60), (1, rgb 255 90 80)])
   \<and> (bar_style b = ''pink'' \<longrightarrow>
        gradient_stops (bar_style b) = [(0, rgb 255 100 220), (1, rgb 200 50 255)])
   \<and> (bar_style b = ''green'' \<longrightarrow>
        gradient_stops (bar_style b) = [(0, rgb 40 220 120), (1, rgb 20 160 100)])
   \<and> (bar_style b \<notin> {''rainbow'', ''pink'', ''green''} \<longrightarrow>
        gradient_stops (bar_style b) = [(0, rgb 80 200 255), (1, rgb 150 120 255)])"
proof -
  have w: "rectf_width (track_rect self_rect) = real_of_int (rect_width self_rect - 16)"
    by (simp add: track_rect_def)
  have f: "fill_rect self_rect b = QRectF (rectf_x (track_rect self_rect)) (rectf_y (track_rect self_rect))
       (rectf_width (track_rect self_rect) * (bar_value b / 100)) 14"
    by (simp add: fill_rect_def)
  have g: "(bar_style b = ''rainbow'' \<longrightarrow>
        gradient_stops (bar_style b) = [(0, rgb 30 220 140), (1 / 2, rgb 255 200 60), (1, rgb 255 90 80)])
   \<and> (bar_style b = ''pink'' \<longrightarrow>
        gradient_stops (bar_style b) = [(0, rgb 255 100 220), (1, rgb 200 50 255)])
   \<and> (bar_style b = ''green'' \<longrightarrow>
        gradient_stops (bar_style b) = [(0, rgb 40 220 120), (1, rgb 20 160 100)])
   \<and> (bar_style b \<notin> {''rainbow'', ''pink'', ''green''} \<longrightarrow>
        gradient_stops (bar_style b) = [(0, rgb 80 200 255), (1, rgb 150 120 255)])"
    by (simp add: gradient_stops_def)
  have n: "NeonBar_paintEvent self_rect b ! 2 =
      DrawRoundedRect (track_rect self_rect) 8 8 NoPen (SolidBrush (QColor 28 36 48 220))"
     "NeonBar_paintEvent self_rect b ! 3 =
      DrawRoundedRect (fill_rect self_rect b) 8 8 NoPen
        (QLinearGradient (topLeft (fill_rect self_rect b)) (topRight (fill_rect self_rect b))
           (gradient_stops (bar_style b)))"
    by (simp_all add: NeonBar_paintEvent_eq numeral_2_eq_2 numeral_3_eq_3)
  have r: "rectf_width (fill_rect self_rect b) = rectf_width (track_rect self_rect) * bar_value b / 100"
     "rectf_x (fill_rect self_rect b) = rectf_x (track_rect self_rect)"
     "rectf_y (fill_rect self_rect b) = rectf_y (track_rect self_rect)"
     "topLeft (fill_rect self_rect b) = QPointF (rectf_x (fill_rect self_rect b)) (rectf_y (fill_rect self_rect b))"
     "topRight (fill_rect self_rect b) =
        QPointF (rectf_x (fill_rect self_rect b) + rectf_width (fill_rect self_rect b)) (rectf_y (fill_rect self_rect b))"
    by (simp_all add: f)
  have z: "bar_value b = 0 \<longrightarrow> rectf_width (fill_rect self_rect b) = 0"
     "bar_value b = 100 \<longrightarrow> rectf_width (fill_rect self_rect b) = rectf_width (track_rect self_rect)"
    by (simp_all add: f)
  show ?thesis using w g n r z by (simp only: simp_thms)
qed

theorem gauge_fill_render_witness:
  "bar_value (setValue 0 (NeonBar_init ''DISK USAGE'' 75 ''green'')) = 0
   \<and> bar_value (setValue 100 (NeonBar_init ''DISK USAGE'' 75 ''green'')) = 100
   \<and> bar_style (NeonBar_init ''CPU UTILIZATION'' 65 ''rainbow'') = ''rainbow''
   \<and> bar_style (NeonBar_init ''MEMORY USAGE'' 50 ''pink'') = ''pink''
   \<and> bar_style (NeonBar_init ''DISK USAGE'' 75 ''green'') = ''green''
   \<and> bar_style (NeonBar_init ''X'' 30 ''azure'') \<notin> {''rainbow'', ''pink'', ''green''}
   \<and> NeonBar_paintEvent (QRect 0 0 316 56) (NeonBar_init ''CPU UTILIZATION'' 65 ''rainbow'') ! 3 =
       DrawRoundedRect (QRectF 8 28 195 14) 8 8 NoPen
         (QLinearGradient (QPointF 8 28) (QPointF 203 28)
            [(0, rgb 30 220 140), (1 / 2, rgb 255 200 60), (1, rgb 255 90 80)])
   \<and> NeonBar_paintEvent (QRect 0 0 316 56) (NeonBar_init ''MEMORY USAGE'' 50 ''pink'') ! 3 =
       DrawRoundedRect (QRectF 8 28 150 14) 8 8 NoPen
         (QLinearGradient (QPointF 8 28) (QPointF 158 28) [(0, rgb 255 100 220), (1, rgb 200 50 255)])
   \<and> NeonBar_paintEvent (QRect 0 0 316 56) (NeonBar_init ''DISK USAGE'' 75 ''green'') ! 3 =
       DrawRoundedRect (QRectF 8 28 225 14) 8 8 NoPen
         (QLinearGradient (QPointF 8 28) (QPointF 233 28) [(0, rgb 40 220 120), (1, rgb 20 160 100)])
   \<and> NeonBar_paintEvent (QRect 0 0 316 56) (NeonBar_init ''X'' 30 ''azure'') ! 3 =
       DrawRoundedRect (QRectF 8 28 90 14) 8 8 NoPen
         (QLinearGradient (QPointF 8 28) (QPointF 98 28) [(0, rgb 80 200 255), (1, rgb 150 120 255)])
   \<and> rectf_width (fill_rect (QRect 0 0 316 56) (setValue 0 (NeonBar_init ''DISK USAGE'' 75 ''green''))) = 0
   \<and> rectf_width (fill_rect (QRect 0 0 316 56) (setValue 100 (NeonBar_init ''DISK USAGE'' 75 ''green''))) = 300"
  using gauge_fill_render [of "QRect 0 0 316 56" "NeonBar_init ''CPU UTILIZATION'' 65 ''rainbow''"]
    gauge_fill_render [of "QRect 0 0 316 56" "NeonBar_init ''MEMORY USAGE'' 50 ''pink''"]
    gauge_fill_render [of "QRect 0 0 316 56" "NeonBar_init ''DISK USAGE'' 75 ''green''"]
    gauge_fill_render [of "QRect 0 0 316 56" "NeonBar_init ''X'' 30 ''azure''"]
    gauge_fill_render [of "QRect 0 0 316 56" "setValue 0 (NeonBar_init ''DISK USAGE'' 75 ''green'')"]
    gauge_fill_render [of "QRect 0 0 316 56" "setValue 100 (NeonBar_init ''DISK USAGE'' 75 ''green'')"]
  by (simp add: NeonBar_init_def setValue_def clamp_def track_rect_def fill_rect_def)

end
